theory Spec2Isabelle
  imports Complex_Main "HOL-Library.AList"
begin

section \<open>Data model\<close>

text \<open>
  The tables of the subscription API, as the Prisma client and the SQL migration declare
  them. A table is the list of its rows in storage order, so that \<open>findFirst\<close> is the
  first row that satisfies the filter. Identifiers (uuid strings, slugs, PayPal ids) are
  strings; a \<open>Date\<close> is its number of milliseconds since the epoch; an \<open>Int\<close> column is
  an integer, with the 32-bit range of the column checked where the code writes one; a nullable column is an option.
\<close>

type_synonym ident = string
type_synonym date = int

datatype SubscriptionStatus = PENDING | ACTIVE | CANCELLED | SUSPENDED | EXPIRED

record User =
  user_id :: ident
  user_email :: string

record SubscriptionPlan =
  plan_id :: ident
  plan_name :: string
  billingPeriod :: string

record AIComponent =
  ac_id :: ident
  ac_name :: string
  ac_slug :: string
  ac_isActive :: bool

record PlanFeature =
  pf_planId :: ident
  pf_aiComponentId :: ident
  pf_enabled :: bool
  limitValue :: "int option"
  limitType :: string

record Subscription =
  sub_id :: ident
  userId :: ident
  planId :: ident
  paypalSubscriptionId :: "ident option"
  status :: SubscriptionStatus
  currentPeriodStart :: "date option"
  currentPeriodEnd :: "date option"
  cancelledAt :: "date option"
  cancellationReason :: "string option"
  cancelAtPeriodEnd :: bool

record UsageTracking =
  ut_id :: nat
  ut_subscriptionId :: ident
  ut_aiComponentId :: ident
  metricType :: string
  ut_value :: int
  periodStart :: date
  periodEnd :: date

record PayPalEvent =
  pe_eventType :: string
  pe_eventId :: ident
  processed :: bool
  processedAt :: "date option"
  errorMessage :: "string option"

text \<open>
  The e-mails of \<open>EmailService\<close>, one constructor for each public method with the
  arguments the method is called with. \<open>sendEmail\<close> hands the message to the SMTP
  transport and swallows a transport failure, so the model records the hand-over.
\<close>

datatype email =
    WelcomeEmail ident string
  | QuotaWarningEmail ident string int int int
  | QuotaExceededEmail ident string int int
  | MonthlyUsageReport ident "(string \<times> int \<times> int option) list"
  | PaymentReceipt ident string string
  | PaymentFailedEmail ident
  | CancellationEmail ident string bool

text \<open>
  The database, together with the outbox of the mail transport and the counter that
  stands for the \<open>uuid()\<close> default of a new usage row.
\<close>

record db =
  users :: "User list"
  subscriptionPlans :: "SubscriptionPlan list"
  aiComponents :: "AIComponent list"
  planFeatures :: "PlanFeature list"
  subscriptions :: "Subscription list"
  usageTracking :: "UsageTracking list"
  payPalEvents :: "PayPalEvent list"
  outbox :: "email list"
  nextId :: nat

text \<open>A thrown \<open>Error\<close> is a value carrying its message.\<close>

datatype error = Error string

section \<open>Queries\<close>

text \<open>
  Prisma rejects \<open>null\<close> as the filter value of a required column and rejects a required
  relation that resolves to no row; both are thrown errors, which the callers' \<open>catch\<close>
  blocks receive.
\<close>

definition validationError :: error where
  "validationError = Error ''Argument must not be null''"

definition inconsistentResult :: error where
  "inconsistentResult = Error ''Inconsistent query result''"

definition subscription_findUnique :: "db \<Rightarrow> ident \<Rightarrow> Subscription option" where
  "subscription_findUnique d i = find (\<lambda>s. sub_id s = i) (subscriptions d)"

definition subscription_findByPaypalId :: "db \<Rightarrow> ident \<Rightarrow> Subscription option" where
  "subscription_findByPaypalId d p =
     find (\<lambda>s. paypalSubscriptionId s = Some p) (subscriptions d)"

definition aIComponent_findUnique :: "db \<Rightarrow> string \<Rightarrow> AIComponent option" where
  "aIComponent_findUnique d slug = find (\<lambda>c. ac_slug c = slug) (aiComponents d)"

definition aIComponent_byId :: "db \<Rightarrow> ident \<Rightarrow> AIComponent option" where
  "aIComponent_byId d i = find (\<lambda>c. ac_id c = i) (aiComponents d)"

definition include_plan :: "db \<Rightarrow> Subscription \<Rightarrow> error + (Subscription \<times> SubscriptionPlan)" where
  "include_plan d s =
     (case find (\<lambda>p. plan_id p = planId s) (subscriptionPlans d) of
        None \<Rightarrow> Inl inconsistentResult
      | Some p \<Rightarrow> Inr (s, p))"

definition include_aiComponent :: "db \<Rightarrow> PlanFeature \<Rightarrow> error + (PlanFeature \<times> AIComponent)" where
  "include_aiComponent d f =
     (case aIComponent_byId d (pf_aiComponentId f) of
        None \<Rightarrow> Inl inconsistentResult
      | Some c \<Rightarrow> Inr (f, c))"

fun all_or_error :: "('a \<Rightarrow> error + 'b) \<Rightarrow> 'a list \<Rightarrow> error + 'b list" where
  "all_or_error g [] = Inr []"
| "all_or_error g (x # xs) =
     (case g x of
        Inl e \<Rightarrow> Inl e
      | Inr y \<Rightarrow> (case all_or_error g xs of Inl e \<Rightarrow> Inl e | Inr ys \<Rightarrow> Inr (y # ys)))"

text \<open>\<open>plan: { include: { features: { include: { aiComponent: true } } } }\<close>\<close>

definition plan_features :: "db \<Rightarrow> ident \<Rightarrow> error + (PlanFeature \<times> AIComponent) list" where
  "plan_features d p =
     all_or_error (include_aiComponent d) (filter (\<lambda>f. pf_planId f = p) (planFeatures d))"

section \<open>UsageTrackingService: reading the current usage\<close>

definition getComponentUsage :: "db \<Rightarrow> ident \<Rightarrow> ident \<Rightarrow> error + int" where
  "getComponentUsage d subscriptionId aiComponentId =
     (case subscription_findUnique d subscriptionId of
        None \<Rightarrow> Inr 0
      | Some subscription \<Rightarrow>
          (case currentPeriodStart subscription of
             None \<Rightarrow> Inr 0
           | Some ps \<Rightarrow>
               (case currentPeriodEnd subscription of
                  None \<Rightarrow> Inl validationError
                | Some pe \<Rightarrow>
                    (case find (\<lambda>u. ut_subscriptionId u = subscriptionId \<and>
                                     ut_aiComponentId u = aiComponentId \<and>
                                     periodStart u = ps \<and> periodEnd u = pe)
                               (usageTracking d) of
                       None \<Rightarrow> Inr 0
                     | Some usage \<Rightarrow> Inr (ut_value usage)))))"

section \<open>Middleware\<close>

text \<open>
  A middleware either answers the request (status and JSON body) or calls \<open>next()\<close> with
  the request it has extended. Of a body, the fields that carry a decision are kept:
  the error text, the machine-readable code and the used and limit figures.
\<close>

record response_body =
  rb_error :: string
  rb_code :: "string option"
  rb_current :: "int option"
  rb_limit :: "int option"

datatype 'a outcome = Respond nat response_body | Next 'a

record componentQuota =
  used :: int
  limit :: "int option"
  remaining :: "int option"

record request =
  req_user :: "ident option"
  req_subscription :: "(Subscription \<times> SubscriptionPlan) option"
  req_componentQuota :: "componentQuota option"

definition json_error :: "string \<Rightarrow> response_body" where
  "json_error msg = \<lparr>rb_error = msg, rb_code = None, rb_current = None, rb_limit = None\<rparr>"

definition json_code :: "string \<Rightarrow> string \<Rightarrow> response_body" where
  "json_code msg c = \<lparr>rb_error = msg, rb_code = Some c, rb_current = None, rb_limit = None\<rparr>"

subsection \<open>checkSubscription\<close>

definition checkSubscription :: "date \<Rightarrow> request \<Rightarrow> db \<Rightarrow> request outcome \<times> db" where
  "checkSubscription now req d =
     (case req_user req of
        None \<Rightarrow> (Respond 401 (json_error ''Authentication required''), d)
      | Some uid \<Rightarrow>
          (case find (\<lambda>s. userId s = uid \<and> status s = ACTIVE) (subscriptions d) of
             None \<Rightarrow> (Respond 403 (json_code ''No active subscription'' ''NO_SUBSCRIPTION''), d)
           | Some s \<Rightarrow>
               (case include_plan d s of
                  Inl e \<Rightarrow> (Respond 500 (json_error ''Failed to verify subscription''), d)
                | Inr subscription \<Rightarrow>
                    if (case currentPeriodEnd (fst subscription) of
                          None \<Rightarrow> False
                        | Some e \<Rightarrow> now > e)
                    then (Respond 403 (json_code ''Subscription expired'' ''SUBSCRIPTION_EXPIRED''), d)
                    else (Next (req\<lparr>req_subscription := Some subscription\<rparr>), d))))"

subsection \<open>enforceQuota\<close>

definition planFeature_findFirst :: "db \<Rightarrow> ident \<Rightarrow> ident \<Rightarrow> PlanFeature option" where
  "planFeature_findFirst d p c =
     find (\<lambda>f. pf_planId f = p \<and> pf_aiComponentId f = c \<and> pf_enabled f) (planFeatures d)"

definition enforceQuota :: "string \<Rightarrow> request \<Rightarrow> db \<Rightarrow> request outcome \<times> db" where
  "enforceQuota aiComponentSlug req d =
     (case req_subscription req of
        None \<Rightarrow> (Respond 403 (json_code ''Active subscription required'' ''NO_SUBSCRIPTION''), d)
      | Some subscription \<Rightarrow>
          (case aIComponent_findUnique d aiComponentSlug of
             None \<Rightarrow> (Respond 404 (json_error ''AI component not found or inactive''), d)
           | Some aiComponent \<Rightarrow>
               if \<not> ac_isActive aiComponent
               then (Respond 404 (json_error ''AI component not found or inactive''), d)
               else
                 (case planFeature_findFirst d (plan_id (snd subscription)) (ac_id aiComponent) of
                    None \<Rightarrow>
                      (Respond 403
                         (json_code (ac_name aiComponent @ '' not available in your plan'')
                            ''FEATURE_NOT_AVAILABLE''), d)
                  | Some planFeature \<Rightarrow>
                      (case limitValue planFeature of
                         Some lv \<Rightarrow>
                           (case getComponentUsage d (sub_id (fst subscription)) (ac_id aiComponent) of
                              Inl e \<Rightarrow> (Respond 500 (json_error ''Failed to check quota''), d)
                            | Inr currentUsage \<Rightarrow>
                                if currentUsage \<ge> lv
                                then (Respond 429
                                        \<lparr>rb_error = ''Quota exceeded'',
                                         rb_code = Some ''QUOTA_EXCEEDED'',
                                         rb_current = Some currentUsage,
                                         rb_limit = Some lv\<rparr>, d)
                                else (Next (req\<lparr>req_componentQuota :=
                                              Some \<lparr>used = currentUsage, limit = Some lv,
                                                    remaining = Some (lv - currentUsage)\<rparr>\<rparr>), d))
                       | None \<Rightarrow>
                           (case getComponentUsage d (sub_id (fst subscription)) (ac_id aiComponent) of
                              Inl e \<Rightarrow> (Respond 500 (json_error ''Failed to check quota''), d)
                            | Inr currentUsage \<Rightarrow>
                                (Next (req\<lparr>req_componentQuota :=
                                         Some \<lparr>used = currentUsage, limit = None,
                                               remaining = None\<rparr>\<rparr>), d))))))"

text \<open>
  The route of a metered operation runs the guards in this order:
  \<open>authenticateUser, checkSubscription, enforceQuota(slug)\<close>, then the handler.
  \<open>admit\<close> is that chain after authentication.
\<close>

definition admit :: "string \<Rightarrow> date \<Rightarrow> request \<Rightarrow> db \<Rightarrow> request outcome \<times> db" where
  "admit aiComponentSlug now req d =
     (case checkSubscription now req d of
        (Respond st body, d1) \<Rightarrow> (Respond st body, d1)
      | (Next req1, d1) \<Rightarrow> enforceQuota aiComponentSlug req1 d1)"

section \<open>SubscriptionService.hasFeatureAccess\<close>

record featureAccess =
  hasAccess :: bool
  fa_limit :: "int option"
  fa_used :: "int option"

definition hasFeatureAccess :: "db \<Rightarrow> ident \<Rightarrow> string \<Rightarrow> error + featureAccess" where
  "hasFeatureAccess d subscriptionId aiComponentSlug =
     (case subscription_findUnique d subscriptionId of
        None \<Rightarrow> Inr \<lparr>hasAccess = False, fa_limit = None, fa_used = None\<rparr>
      | Some s \<Rightarrow>
          (case include_plan d s of
             Inl e \<Rightarrow> Inl e
           | Inr subscription \<Rightarrow>
               (case plan_features d (plan_id (snd subscription)) of
                  Inl e \<Rightarrow> Inl e
                | Inr features \<Rightarrow>
                    if status (fst subscription) \<noteq> ACTIVE
                    then Inr \<lparr>hasAccess = False, fa_limit = None, fa_used = None\<rparr>
                    else
                      (case find (\<lambda>f. ac_slug (snd f) = aiComponentSlug \<and> pf_enabled (fst f))
                                 features of
                         None \<Rightarrow> Inr \<lparr>hasAccess = False, fa_limit = None, fa_used = None\<rparr>
                       | Some feature \<Rightarrow>
                           (case getComponentUsage d (sub_id (fst subscription))
                                   (ac_id (snd feature)) of
                              Inl e \<Rightarrow> Inl e
                            | Inr usage \<Rightarrow>
                                (case limitValue (fst feature) of
                                   None \<Rightarrow>
                                     Inr \<lparr>hasAccess = True, fa_limit = None, fa_used = Some usage\<rparr>
                                 | Some lv \<Rightarrow>
                                     if usage \<ge> lv
                                     then Inr \<lparr>hasAccess = False, fa_limit = Some lv,
                                               fa_used = Some usage\<rparr>
                                     else Inr \<lparr>hasAccess = True,
                                               fa_limit = (if lv = 0 then None else Some lv),
                                               fa_used = Some usage\<rparr>))))))"

section \<open>EmailService\<close>

text \<open>
  Every public method first resolves the address of the user and throws
  \<open>User not found\<close> when there is none; otherwise the message goes to the transport.
\<close>

definition getUserEmail :: "db \<Rightarrow> ident \<Rightarrow> error + string" where
  "getUserEmail d uid =
     (case find (\<lambda>u. user_id u = uid) (users d) of
        None \<Rightarrow> Inl (Error ''User not found'')
      | Some u \<Rightarrow> Inr (user_email u))"

definition sendEmail :: "ident \<Rightarrow> email \<Rightarrow> db \<Rightarrow> (error + unit) \<times> db" where
  "sendEmail uid m d =
     (case getUserEmail d uid of
        Inl e \<Rightarrow> (Inl e, d)
      | Inr addr \<Rightarrow> (Inr (), d\<lparr>outbox := outbox d @ [m]\<rparr>))"

definition sendWelcomeEmail :: "ident \<Rightarrow> string \<Rightarrow> db \<Rightarrow> (error + unit) \<times> db" where
  "sendWelcomeEmail uid planName = sendEmail uid (WelcomeEmail uid planName)"

definition sendQuotaWarningEmail ::
  "ident \<Rightarrow> string \<Rightarrow> int \<Rightarrow> int \<Rightarrow> int \<Rightarrow> db \<Rightarrow> (error + unit) \<times> db" where
  "sendQuotaWarningEmail uid componentName u l percentage =
     sendEmail uid (QuotaWarningEmail uid componentName u l percentage)"

definition sendQuotaExceededEmail ::
  "ident \<Rightarrow> string \<Rightarrow> int \<Rightarrow> int \<Rightarrow> db \<Rightarrow> (error + unit) \<times> db" where
  "sendQuotaExceededEmail uid componentName u l =
     sendEmail uid (QuotaExceededEmail uid componentName u l)"

definition sendMonthlyUsageReport ::
  "ident \<Rightarrow> (string \<times> int \<times> int option) list \<Rightarrow> db \<Rightarrow> (error + unit) \<times> db" where
  "sendMonthlyUsageReport uid usageData = sendEmail uid (MonthlyUsageReport uid usageData)"

definition sendPaymentReceipt :: "ident \<Rightarrow> string \<Rightarrow> string \<Rightarrow> db \<Rightarrow> (error + unit) \<times> db" where
  "sendPaymentReceipt uid amount planName = sendEmail uid (PaymentReceipt uid amount planName)"

definition sendPaymentFailedEmail :: "ident \<Rightarrow> db \<Rightarrow> (error + unit) \<times> db" where
  "sendPaymentFailedEmail uid = sendEmail uid (PaymentFailedEmail uid)"

definition sendCancellationEmail :: "ident \<Rightarrow> string \<Rightarrow> bool \<Rightarrow> db \<Rightarrow> (error + unit) \<times> db" where
  "sendCancellationEmail uid planName immediate =
     sendEmail uid (CancellationEmail uid planName immediate)"

section \<open>Sequencing\<close>

text \<open>
  \<open>await f(); await g();\<close> runs \<open>g\<close> on the database \<open>f\<close> left, unless \<open>f\<close> threw:
  then the error travels on, together with whatever \<open>f\<close> had already written.
\<close>

definition andThen ::
  "(error + 'a) \<times> db \<Rightarrow> ('a \<Rightarrow> db \<Rightarrow> (error + 'b) \<times> db) \<Rightarrow> (error + 'b) \<times> db" where
  "andThen r k = (case r of (Inl e, d) \<Rightarrow> (Inl e, d) | (Inr x, d) \<Rightarrow> k x d)"

section \<open>UsageTrackingService: writing\<close>

text \<open>
  \<open>usage_tracking.value\<close> is a 32-bit \<open>INTEGER\<close> column: a write of a value outside
  its range is refused by the database, the Prisma call throws and the table stays as it
  was. \<open>createMany\<close> is one statement, so it inserts all of its rows or none.
\<close>

definition int4 :: "int \<Rightarrow> bool" where
  "int4 v \<longleftrightarrow> - 2147483648 \<le> v \<and> v \<le> 2147483647"

definition outOfRange :: error where
  "outOfRange = Error ''Value out of range for the type''"

definition usageTracking_insert :: "UsageTracking \<Rightarrow> db \<Rightarrow> db" where
  "usageTracking_insert row d =
     d\<lparr>usageTracking := usageTracking d @ [row\<lparr>ut_id := nextId d\<rparr>],
       nextId := Suc (nextId d)\<rparr>"

definition usageTracking_create :: "UsageTracking \<Rightarrow> db \<Rightarrow> error + db" where
  "usageTracking_create row d =
     (if int4 (ut_value row) then Inr (usageTracking_insert row d) else Inl outOfRange)"

definition usageTracking_createMany :: "UsageTracking list \<Rightarrow> db \<Rightarrow> error + db" where
  "usageTracking_createMany rows d =
     (if find (\<lambda>row. \<not> int4 (ut_value row)) rows \<noteq> None then Inl outOfRange
      else Inr (fold usageTracking_insert rows d))"

definition usageTracking_increment :: "nat \<Rightarrow> int \<Rightarrow> db \<Rightarrow> error + db" where
  "usageTracking_increment i amount d =
     (case find (\<lambda>u. ut_id u = i) (usageTracking d) of
        None \<Rightarrow> Inl (Error ''Record to update not found'')
      | Some row \<Rightarrow>
          if int4 (ut_value row + amount)
          then Inr (d\<lparr>usageTracking :=
                       map (\<lambda>u. if ut_id u = i then u\<lparr>ut_value := ut_value u + amount\<rparr> else u)
                           (usageTracking d)\<rparr>)
          else Inl outOfRange)"

definition initializeUsageForSubscription ::
  "ident \<Rightarrow> date \<Rightarrow> date \<Rightarrow> db \<Rightarrow> (error + unit) \<times> db" where
  "initializeUsageForSubscription subscriptionId ps pe d =
     (case subscription_findUnique d subscriptionId of
        None \<Rightarrow> (Inl (Error ''Subscription not found''), d)
      | Some s \<Rightarrow>
          (case include_plan d s of
             Inl e \<Rightarrow> (Inl e, d)
           | Inr subscription \<Rightarrow>
               (case plan_features d (plan_id (snd subscription)) of
                  Inl e \<Rightarrow> (Inl e, d)
                | Inr features \<Rightarrow>
                    (let usageEntries =
                           map (\<lambda>feature.
                                  \<lparr>ut_id = 0,
                                   ut_subscriptionId = subscriptionId,
                                   ut_aiComponentId = ac_id (snd feature),
                                   metricType = limitType (fst feature),
                                   ut_value = 0,
                                   periodStart = ps,
                                   periodEnd = pe\<rparr>)
                               (filter (\<lambda>f. pf_enabled (fst f)) features)
                     in (case usageTracking_createMany usageEntries d of
                           Inl e \<Rightarrow> (Inl e, d)
                         | Inr d1 \<Rightarrow> (Inr (), d1))))))"

text \<open>
  \<open>percentage = (usage / limitValue) * 100\<close> is computed on doubles from two 32-bit
  integers. The quotient of such integers is 0.8, 0.9 or 1 or differs from them by more
  than \<open>2^-34\<close>, far above the rounding error of the two operations, and \<open>0.8 * 100\<close>,
  \<open>0.9 * 100\<close> round to 80 and 90. So the three comparisons give what they give on
  the exact quotient, which is the rational number below.
\<close>

definition percentage_of :: "int \<Rightarrow> int \<Rightarrow> rat" where
  "percentage_of u l = (of_int u / of_int l) * 100"

definition checkQuotaWarnings :: "ident \<Rightarrow> ident \<Rightarrow> db \<Rightarrow> (error + unit) \<times> db" where
  "checkQuotaWarnings subscriptionId aiComponentId d =
     (case subscription_findUnique d subscriptionId of
        None \<Rightarrow> (Inr (), d)
      | Some s \<Rightarrow>
          (case include_plan d s of
             Inl e \<Rightarrow> (Inl e, d)
           | Inr subscription \<Rightarrow>
               (case all_or_error (include_aiComponent d)
                       (filter (\<lambda>f. pf_planId f = plan_id (snd subscription) \<and>
                                    pf_aiComponentId f = aiComponentId)
                               (planFeatures d)) of
                  Inl e \<Rightarrow> (Inl e, d)
                | Inr [] \<Rightarrow> (Inr (), d)
                | Inr (feature # rest) \<Rightarrow>
                    (case limitValue (fst feature) of
                       None \<Rightarrow> (Inr (), d)
                     | Some lv \<Rightarrow>
                         if lv = 0 then (Inr (), d)
                         else
                           (case getComponentUsage d subscriptionId aiComponentId of
                              Inl e \<Rightarrow> (Inl e, d)
                            | Inr usage \<Rightarrow>
                                if percentage_of usage lv \<ge> 100
                                then sendQuotaExceededEmail (userId s)
                                       (ac_name (snd feature)) usage lv d
                                else if percentage_of usage lv \<ge> 90
                                then sendQuotaWarningEmail (userId s)
                                       (ac_name (snd feature)) usage lv 90 d
                                else if percentage_of usage lv \<ge> 80
                                then sendQuotaWarningEmail (userId s)
                                       (ac_name (snd feature)) usage lv 80 d
                                else (Inr (), d))))))"

definition incrementUsage :: "ident \<Rightarrow> string \<Rightarrow> int \<Rightarrow> db \<Rightarrow> (error + unit) \<times> db" where
  "incrementUsage subscriptionId aiComponentSlug amount d =
     (case subscription_findUnique d subscriptionId of
        None \<Rightarrow> (Inl (Error ''Subscription not found''), d)
      | Some subscription \<Rightarrow>
          (case aIComponent_findUnique d aiComponentSlug of
             None \<Rightarrow> (Inl (Error ''AI component not found''), d)
           | Some aiComponent \<Rightarrow>
               (case currentPeriodStart subscription of
                  None \<Rightarrow> (Inl validationError, d)
                | Some ps \<Rightarrow>
                    (case currentPeriodEnd subscription of
                       None \<Rightarrow> (Inl validationError, d)
                     | Some pe \<Rightarrow>
                         (case find (\<lambda>u. ut_subscriptionId u = subscriptionId \<and>
                                          ut_aiComponentId u = ac_id aiComponent \<and>
                                          periodStart u = ps \<and> periodEnd u = pe)
                                    (usageTracking d) of
                            Some existingUsage \<Rightarrow>
                              (case usageTracking_increment (ut_id existingUsage) amount d of
                                 Inl e \<Rightarrow> (Inl e, d)
                               | Inr d1 \<Rightarrow>
                                   checkQuotaWarnings subscriptionId (ac_id aiComponent) d1)
                          | None \<Rightarrow>
                              (case usageTracking_create
                                      \<lparr>ut_id = 0,
                                       ut_subscriptionId = subscriptionId,
                                       ut_aiComponentId = ac_id aiComponent,
                                       metricType = ''count'',
                                       ut_value = amount,
                                       periodStart = ps,
                                       periodEnd = pe\<rparr> d of
                                 Inl e \<Rightarrow> (Inl e, d)
                               | Inr d1 \<Rightarrow>
                                   checkQuotaWarnings subscriptionId (ac_id aiComponent) d1))))))"

definition resetQuotas :: "ident \<Rightarrow> db \<Rightarrow> (error + unit) \<times> db" where
  "resetQuotas subscriptionId d = (Inr (), d)"

section \<open>The clock and date-fns\<close>

text \<open>
  \<open>new Date()\<close> is the argument \<open>now\<close> of the operation that reads it. The calendar
  functions of date-fns that the code imports are parameters of the model.
\<close>

record datefns =
  addMonths :: "date \<Rightarrow> int \<Rightarrow> date"
  addYears :: "date \<Rightarrow> int \<Rightarrow> date"
  startOfDay :: "date \<Rightarrow> date"
  endOfDay :: "date \<Rightarrow> date"

definition nextPeriodEnd :: "datefns \<Rightarrow> SubscriptionPlan \<Rightarrow> date \<Rightarrow> date" where
  "nextPeriodEnd cal plan periodBegin =
     (if billingPeriod plan = ''yearly'' then addYears cal periodBegin 1
      else addMonths cal periodBegin 1)"

section \<open>SubscriptionService\<close>

definition subscription_update ::
  "ident \<Rightarrow> (Subscription \<Rightarrow> Subscription) \<Rightarrow> db \<Rightarrow> (error + Subscription) \<times> db" where
  "subscription_update i g d =
     (case subscription_findUnique d i of
        None \<Rightarrow> (Inl (Error ''Record to update not found''), d)
      | Some s \<Rightarrow>
          (Inr (g s),
           d\<lparr>subscriptions := map (\<lambda>x. if sub_id x = i then g x else x) (subscriptions d)\<rparr>))"

text \<open>
  \<open>paypalOk\<close> says whether the request to the PayPal API that the method makes
  succeeds; when it does not, \<open>authenticatedRequest\<close> rethrows.
\<close>

definition activateSubscription ::
  "datefns \<Rightarrow> bool \<Rightarrow> date \<Rightarrow> ident \<Rightarrow> db \<Rightarrow> (error + Subscription) \<times> db" where
  "activateSubscription cal paypalOk now paypalId d =
     (case subscription_findByPaypalId d paypalId of
        None \<Rightarrow> (Inl (Error ''Subscription not found''), d)
      | Some s \<Rightarrow>
          (case include_plan d s of
             Inl e \<Rightarrow> (Inl e, d)
           | Inr subscription \<Rightarrow>
               if \<not> paypalOk then (Inl (Error ''PayPal request failed''), d)
               else
                 (let ps = now;
                      pe = nextPeriodEnd cal (snd subscription) ps
                  in andThen
                       (subscription_update (sub_id s)
                          (\<lambda>x. x\<lparr>status := ACTIVE,
                                 currentPeriodStart := Some ps,
                                 currentPeriodEnd := Some pe\<rparr>) d)
                       (\<lambda>updatedSubscription d1.
                          andThen (initializeUsageForSubscription (sub_id s) ps pe d1)
                            (\<lambda>_ d2.
                               andThen (sendWelcomeEmail (userId s) (plan_name (snd subscription)) d2)
                                 (\<lambda>_ d3. (Inr updatedSubscription, d3)))))))"

definition cancelSubscription ::
  "bool \<Rightarrow> date \<Rightarrow> ident \<Rightarrow> string option \<Rightarrow> bool \<Rightarrow> db \<Rightarrow> (error + Subscription) \<times> db" where
  "cancelSubscription paypalOk now subscriptionId reason cancelImmediately d =
     (case subscription_findUnique d subscriptionId of
        None \<Rightarrow> (Inl (Error ''Subscription not found''), d)
      | Some s \<Rightarrow>
          (case include_plan d s of
             Inl e \<Rightarrow> (Inl e, d)
           | Inr subscription \<Rightarrow>
               if paypalSubscriptionId s \<noteq> None \<and> \<not> paypalOk
               then (Inl (Error ''PayPal request failed''), d)
               else
                 andThen
                   (subscription_update subscriptionId
                      (\<lambda>x. x\<lparr>status := (if cancelImmediately then CANCELLED else status s),
                             cancelledAt := Some now,
                             cancellationReason :=
                               (case reason of None \<Rightarrow> cancellationReason x | Some r \<Rightarrow> Some r),
                             cancelAtPeriodEnd := \<not> cancelImmediately\<rparr>) d)
                   (\<lambda>updatedSubscription d1.
                      andThen (sendCancellationEmail (userId s) (plan_name (snd subscription))
                                 cancelImmediately d1)
                        (\<lambda>_ d2. (Inr updatedSubscription, d2)))))"

section \<open>Period summary and the quota reset job\<close>

record usageSummaryEntry =
  us_used :: int
  us_limit :: "int option"
  us_percentage :: rat
  resetDate :: "date option"

definition getCurrentPeriodUsage ::
  "date \<Rightarrow> ident \<Rightarrow> db \<Rightarrow> error + (string \<times> usageSummaryEntry) list" where
  "getCurrentPeriodUsage now subscriptionId d =
     (case subscription_findUnique d subscriptionId of
        None \<Rightarrow> Inl (Error ''Subscription not found'')
      | Some s \<Rightarrow>
          (case include_plan d s of
             Inl e \<Rightarrow> Inl e
           | Inr subscription \<Rightarrow>
               (case plan_features d (plan_id (snd subscription)) of
                  Inl e \<Rightarrow> Inl e
                | Inr features \<Rightarrow>
                    (let rows = filter (\<lambda>u. ut_subscriptionId u = subscriptionId \<and>
                                            periodStart u \<ge> now - 32 * 24 * 60 * 60 * 1000)
                                       (usageTracking d)
                     in Inr (fold
                          (\<lambda>feature summary.
                             if \<not> pf_enabled (fst feature) then summary
                             else
                               (let usage = find (\<lambda>u. ut_aiComponentId u = ac_id (snd feature) \<and>
                                                       Some (periodStart u) = currentPeriodStart s)
                                                 rows;
                                    u = (case usage of None \<Rightarrow> 0 | Some r \<Rightarrow> ut_value r);
                                    l = limitValue (fst feature);
                                    percentage =
                                      (case l of
                                         None \<Rightarrow> 0
                                       | Some lv \<Rightarrow> if lv = 0 then 0 else percentage_of u lv)
                                in AList.update (ac_slug (snd feature))
                                     \<lparr>us_used = u, us_limit = l, us_percentage = percentage,
                                      resetDate = currentPeriodEnd s\<rparr> summary))
                          features [])))))"

definition include_plan_user ::
  "db \<Rightarrow> Subscription \<Rightarrow> error + (Subscription \<times> SubscriptionPlan)" where
  "include_plan_user d s =
     (case include_plan d s of
        Inl e \<Rightarrow> Inl e
      | Inr subscription \<Rightarrow>
          (case find (\<lambda>u. user_id u = userId s) (users d) of
             None \<Rightarrow> Inl inconsistentResult
           | Some u \<Rightarrow> Inr subscription))"

text \<open>The body of the job's loop; its \<open>catch\<close> logs and goes on to the next subscription.\<close>

definition resetOne :: "datefns \<Rightarrow> date \<Rightarrow> Subscription \<times> SubscriptionPlan \<Rightarrow> db \<Rightarrow> db" where
  "resetOne cal now subscription d =
     (case getCurrentPeriodUsage now (sub_id (fst subscription)) d of
        Inl e \<Rightarrow> d
      | Inr lastPeriodUsage \<Rightarrow>
          (let newPeriodStart = now;
               newPeriodEnd = nextPeriodEnd cal (snd subscription) newPeriodStart
           in snd
                (andThen
                   (subscription_update (sub_id (fst subscription))
                      (\<lambda>x. x\<lparr>currentPeriodStart := Some newPeriodStart,
                             currentPeriodEnd := Some newPeriodEnd\<rparr>) d)
                   (\<lambda>_ d1.
                      andThen (resetQuotas (sub_id (fst subscription)) d1)
                        (\<lambda>_ d2.
                           andThen
                             (initializeUsageForSubscription (sub_id (fst subscription))
                                newPeriodStart newPeriodEnd d2)
                             (\<lambda>_ d3.
                                sendMonthlyUsageReport (userId (fst subscription))
                                  (map (\<lambda>entry. (fst entry, us_used (snd entry),
                                                    us_limit (snd entry)))
                                       lastPeriodUsage) d3))))))"

definition resetMonthlyQuotas :: "datefns \<Rightarrow> date \<Rightarrow> db \<Rightarrow> db" where
  "resetMonthlyQuotas cal today d =
     (case all_or_error (include_plan_user d)
             (filter (\<lambda>s. status s = ACTIVE \<and>
                          (case currentPeriodEnd s of
                             None \<Rightarrow> False
                           | Some e \<Rightarrow> startOfDay cal today \<le> e \<and> e < endOfDay cal today))
                     (subscriptions d)) of
        Inl e \<Rightarrow> d
      | Inr expiringSubscriptions \<Rightarrow> fold (resetOne cal today) expiringSubscriptions d)"

section \<open>PayPal webhook\<close>

text \<open>
  A delivery is the event PayPal posts, the answer of PayPal's signature verification
  for it, whether PayPal then answers the request that activation makes, and the time of
  arrival. Events are PayPal's: they carry their \<open>resource\<close>.
\<close>

record resource =
  res_id :: ident
  billing_agreement_id :: ident
  amount_total :: string

record webhookEvent =
  ev_id :: ident
  event_type :: string
  ev_resource :: resource

record delivery =
  dl_event :: webhookEvent
  signatureValid :: bool
  paypalApiOk :: bool
  receivedAt :: date

text \<open>
  \<open>paypal_events.event_id\<close> has a unique index, so creating a second row for an event
  id throws.
\<close>

definition payPalEvent_create :: "string \<Rightarrow> ident \<Rightarrow> db \<Rightarrow> error + db" where
  "payPalEvent_create eventType eventId d =
     (if find (\<lambda>r. pe_eventId r = eventId) (payPalEvents d) \<noteq> None
      then Inl (Error ''Unique constraint failed on the fields: (eventId)'')
      else Inr (d\<lparr>payPalEvents := payPalEvents d @
                   [\<lparr>pe_eventType = eventType, pe_eventId = eventId, processed = False,
                     processedAt = None, errorMessage = None\<rparr>]\<rparr>))"

definition payPalEvent_updateMany :: "ident \<Rightarrow> (PayPalEvent \<Rightarrow> PayPalEvent) \<Rightarrow> db \<Rightarrow> db" where
  "payPalEvent_updateMany eventId g d =
     d\<lparr>payPalEvents := map (\<lambda>r. if pe_eventId r = eventId then g r else r) (payPalEvents d)\<rparr>"

definition handleSubscriptionCreated :: "webhookEvent \<Rightarrow> db \<Rightarrow> db" where
  "handleSubscriptionCreated event d = d"

definition handleSubscriptionActivated :: "datefns \<Rightarrow> delivery \<Rightarrow> db \<Rightarrow> db" where
  "handleSubscriptionActivated cal dl d =
     snd (activateSubscription cal (paypalApiOk dl) (receivedAt dl)
            (res_id (ev_resource (dl_event dl))) d)"

definition handlePaymentCompleted :: "datefns \<Rightarrow> delivery \<Rightarrow> db \<Rightarrow> db" where
  "handlePaymentCompleted cal dl d =
     (case subscription_findByPaypalId d (billing_agreement_id (ev_resource (dl_event dl))) of
        None \<Rightarrow> d
      | Some s \<Rightarrow>
          (case include_plan_user d s of
             Inl e \<Rightarrow> d
           | Inr subscription \<Rightarrow>
               (let newPeriodStart = receivedAt dl;
                    newPeriodEnd = nextPeriodEnd cal (snd subscription) newPeriodStart
                in snd
                     (andThen
                        (subscription_update (sub_id s)
                           (\<lambda>x. x\<lparr>currentPeriodStart := Some newPeriodStart,
                                  currentPeriodEnd := Some newPeriodEnd,
                                  status := ACTIVE\<rparr>) d)
                        (\<lambda>_ d1.
                           andThen (resetQuotas (sub_id s) d1)
                             (\<lambda>_ d2.
                                andThen
                                  (initializeUsageForSubscription (sub_id s)
                                     newPeriodStart newPeriodEnd d2)
                                  (\<lambda>_ d3.
                                     sendPaymentReceipt (userId s)
                                       (amount_total (ev_resource (dl_event dl)))
                                       (plan_name (snd subscription)) d3)))))))"

definition handleSubscriptionCancelled :: "delivery \<Rightarrow> db \<Rightarrow> db" where
  "handleSubscriptionCancelled dl d =
     (case subscription_findByPaypalId d (res_id (ev_resource (dl_event dl))) of
        None \<Rightarrow> d
      | Some s \<Rightarrow>
          snd (subscription_update (sub_id s)
                 (\<lambda>x. x\<lparr>status := CANCELLED, cancelledAt := Some (receivedAt dl)\<rparr>) d))"

definition include_user :: "db \<Rightarrow> Subscription \<Rightarrow> error + Subscription" where
  "include_user d s =
     (case find (\<lambda>u. user_id u = userId s) (users d) of
        None \<Rightarrow> Inl inconsistentResult
      | Some u \<Rightarrow> Inr s)"

definition handleSubscriptionSuspended :: "delivery \<Rightarrow> db \<Rightarrow> db" where
  "handleSubscriptionSuspended dl d =
     (case subscription_findByPaypalId d (res_id (ev_resource (dl_event dl))) of
        None \<Rightarrow> d
      | Some s \<Rightarrow>
          (case include_user d s of
             Inl e \<Rightarrow> d
           | Inr subscription \<Rightarrow>
               snd (andThen
                      (subscription_update (sub_id subscription) (\<lambda>x. x\<lparr>status := SUSPENDED\<rparr>) d)
                      (\<lambda>_ d1. sendPaymentFailedEmail (userId subscription) d1))))"

definition handlePaymentFailed :: "delivery \<Rightarrow> db \<Rightarrow> db" where
  "handlePaymentFailed dl d =
     (case subscription_findByPaypalId d (res_id (ev_resource (dl_event dl))) of
        None \<Rightarrow> d
      | Some s \<Rightarrow>
          (case include_user d s of
             Inl e \<Rightarrow> d
           | Inr subscription \<Rightarrow> snd (sendPaymentFailedEmail (userId subscription) d)))"

definition handleSubscriptionUpdated :: "webhookEvent \<Rightarrow> db \<Rightarrow> db" where
  "handleSubscriptionUpdated event d = d"

text \<open>The \<open>switch\<close> of the route on \<open>event.event_type\<close>.\<close>

definition processEvent :: "datefns \<Rightarrow> delivery \<Rightarrow> db \<Rightarrow> db" where
  "processEvent cal dl d =
     (let t = event_type (dl_event dl) in
      if t = ''BILLING.SUBSCRIPTION.CREATED'' then handleSubscriptionCreated (dl_event dl) d
      else if t = ''BILLING.SUBSCRIPTION.ACTIVATED'' then handleSubscriptionActivated cal dl d
      else if t = ''PAYMENT.SALE.COMPLETED'' then handlePaymentCompleted cal dl d
      else if t = ''BILLING.SUBSCRIPTION.CANCELLED'' then handleSubscriptionCancelled dl d
      else if t = ''BILLING.SUBSCRIPTION.SUSPENDED'' then handleSubscriptionSuspended dl d
      else if t = ''BILLING.SUBSCRIPTION.PAYMENT.FAILED'' then handlePaymentFailed dl d
      else if t = ''BILLING.SUBSCRIPTION.UPDATED'' then handleSubscriptionUpdated (dl_event dl) d
      else d)"

text \<open>\<open>router.post('/paypal')\<close>: the status of the response and the database it leaves.\<close>

definition webhook_paypal :: "datefns \<Rightarrow> delivery \<Rightarrow> db \<Rightarrow> nat \<times> db" where
  "webhook_paypal cal dl d =
     (let event = dl_event dl in
      if \<not> signatureValid dl then (401, d)
      else
        (case payPalEvent_create (event_type event) (ev_id event) d of
           Inl e \<Rightarrow>
             (500,
              if ev_id event \<noteq> []
              then payPalEvent_updateMany (ev_id event)
                     (\<lambda>r. r\<lparr>processed := False,
                            errorMessage := Some (case e of Error msg \<Rightarrow> msg)\<rparr>) d
              else d)
         | Inr d1 \<Rightarrow>
             (200,
              payPalEvent_updateMany (ev_id event)
                (\<lambda>r. r\<lparr>processed := True, processedAt := Some (receivedAt dl)\<rparr>)
                (processEvent cal dl d1))))"

text \<open>A sequence of deliveries, each on the database the one before it left.\<close>

definition deliver_all :: "datefns \<Rightarrow> delivery list \<Rightarrow> db \<Rightarrow> db" where
  "deliver_all cal dls d = fold (\<lambda>dl acc. snd (webhook_paypal cal dl acc)) dls d"

section \<open>The quota warning job\<close>

text \<open>
  The job reads the limited, enabled grants of every ACTIVE subscription and, for each,
  the usage summary of the current period. Here the limit may be zero: a positive usage
  divided by zero is \<open>Infinity\<close>, which is at least 100; zero divided by zero is
  \<open>NaN\<close>, and a negative usage gives \<open>-Infinity\<close>, for which every comparison fails.
\<close>

fun forEach :: "('a \<Rightarrow> db \<Rightarrow> (error + unit) \<times> db) \<Rightarrow> 'a list \<Rightarrow> db \<Rightarrow> (error + unit) \<times> db" where
  "forEach body [] d = (Inr (), d)"
| "forEach body (x # xs) d = andThen (body x d) (\<lambda>_. forEach body xs)"

definition warnFeature ::
  "Subscription \<Rightarrow> (string \<times> usageSummaryEntry) list \<Rightarrow> PlanFeature \<times> AIComponent \<Rightarrow> db
     \<Rightarrow> (error + unit) \<times> db" where
  "warnFeature subscription usage feature d =
     (case map_of usage (ac_slug (snd feature)) of
        None \<Rightarrow> (Inr (), d)
      | Some componentUsage \<Rightarrow>
          (case limitValue (fst feature) of
             None \<Rightarrow> (Inr (), d)
           | Some l \<Rightarrow>
               (let u = us_used componentUsage in
                if (if l = 0 then u > 0 else percentage_of u l \<ge> 100)
                then sendQuotaExceededEmail (userId subscription) (ac_name (snd feature)) u l d
                else if l \<noteq> 0 \<and> percentage_of u l \<ge> 90
                then sendQuotaWarningEmail (userId subscription) (ac_name (snd feature)) u l 90 d
                else if l \<noteq> 0 \<and> percentage_of u l \<ge> 80 \<and> percentage_of u l < 90
                then sendQuotaWarningEmail (userId subscription) (ac_name (snd feature)) u l 80 d
                else (Inr (), d))))"

definition warnOne :: "date \<Rightarrow> Subscription \<times> (PlanFeature \<times> AIComponent) list \<Rightarrow> db \<Rightarrow> db" where
  "warnOne now subscription d =
     (case getCurrentPeriodUsage now (sub_id (fst subscription)) d of
        Inl e \<Rightarrow> d
      | Inr usage \<Rightarrow> snd (forEach (warnFeature (fst subscription) usage) (snd subscription) d))"

definition include_limited_features ::
  "db \<Rightarrow> Subscription \<Rightarrow> error + (Subscription \<times> (PlanFeature \<times> AIComponent) list)" where
  "include_limited_features d s =
     (case include_plan_user d s of
        Inl e \<Rightarrow> Inl e
      | Inr subscription \<Rightarrow>
          (case all_or_error (include_aiComponent d)
                  (filter (\<lambda>f. pf_planId f = plan_id (snd subscription) \<and> pf_enabled f \<and>
                               limitValue f \<noteq> None)
                          (planFeatures d)) of
             Inl e \<Rightarrow> Inl e
           | Inr features \<Rightarrow> Inr (s, features)))"

definition sendQuotaWarnings :: "date \<Rightarrow> db \<Rightarrow> db" where
  "sendQuotaWarnings now d =
     (case all_or_error (include_limited_features d)
             (filter (\<lambda>s. status s = ACTIVE) (subscriptions d)) of
        Inl e \<Rightarrow> d
      | Inr activeSubscriptions \<Rightarrow> fold (warnOne now) activeSubscriptions d)"

section \<open>The threshold policy as specified\<close>

text \<open>
  The threshold policy in the words of the specification: a boundary is crossed by an
  increment when \<open>previousValue < boundary \<le> newValue\<close>, both read as percentages of
  the limit. \<open>boundary_of\<close> reads off a mail the boundary it reports.
\<close>

definition crossed_boundaries :: "int \<Rightarrow> int \<Rightarrow> int \<Rightarrow> int list" where
  "crossed_boundaries previousValue newValue l =
     filter (\<lambda>boundary. percentage_of previousValue l < of_int boundary \<and>
                         of_int boundary \<le> percentage_of newValue l)
            [80, 90, 100]"

fun boundary_of :: "email \<Rightarrow> int option" where
  "boundary_of (QuotaWarningEmail uid name u l percentage) = Some percentage"
| "boundary_of (QuotaExceededEmail uid name u l) = Some 100"
| "boundary_of other = None"

section \<open>Example data\<close>

text \<open>
  One user on the Starter plan, which grants the component \<open>invoice_ocr\<close>; the status
  of the subscription, the limit of the grant and the value of the usage counter vary.
\<close>

definition demo_user :: User where
  "demo_user = \<lparr>user_id = ''u1'', user_email = ''owner@example.com''\<rparr>"

definition demo_plan :: SubscriptionPlan where
  "demo_plan = \<lparr>plan_id = ''p1'', plan_name = ''Starter'', billingPeriod = ''monthly''\<rparr>"

definition demo_component :: AIComponent where
  "demo_component =
     \<lparr>ac_id = ''c1'', ac_name = ''Invoice OCR'', ac_slug = ''invoice_ocr'', ac_isActive = True\<rparr>"

definition demo_feature :: "int option \<Rightarrow> PlanFeature" where
  "demo_feature l =
     \<lparr>pf_planId = ''p1'', pf_aiComponentId = ''c1'', pf_enabled = True,
      limitValue = l, limitType = ''count''\<rparr>"

definition demo_subscription :: "SubscriptionStatus \<Rightarrow> Subscription" where
  "demo_subscription st =
     \<lparr>sub_id = ''s1'', userId = ''u1'', planId = ''p1'', paypalSubscriptionId = Some ''I-1'',
      status = st, currentPeriodStart = Some 1000, currentPeriodEnd = Some 2000,
      cancelledAt = None, cancellationReason = None, cancelAtPeriodEnd = False\<rparr>"

definition demo_usage :: "int \<Rightarrow> UsageTracking" where
  "demo_usage v =
     \<lparr>ut_id = 0, ut_subscriptionId = ''s1'', ut_aiComponentId = ''c1'', metricType = ''count'',
      ut_value = v, periodStart = 1000, periodEnd = 2000\<rparr>"

definition demo_db :: "SubscriptionStatus \<Rightarrow> int option \<Rightarrow> int \<Rightarrow> db" where
  "demo_db st l v =
     \<lparr>users = [demo_user], subscriptionPlans = [demo_plan], aiComponents = [demo_component],
      planFeatures = [demo_feature l], subscriptions = [demo_subscription st],
      usageTracking = [demo_usage v], payPalEvents = [], outbox = [], nextId = 1\<rparr>"

definition demo_request :: request where
  "demo_request = \<lparr>req_user = Some ''u1'', req_subscription = None, req_componentQuota = None\<rparr>"

definition demo_attached :: request where
  "demo_attached = demo_request\<lparr>req_subscription := Some (demo_subscription ACTIVE, demo_plan)\<rparr>"

definition demo_db_disabled :: db where
  "demo_db_disabled =
     (demo_db ACTIVE (Some 100) 0)\<lparr>planFeatures := [(demo_feature (Some 100))\<lparr>pf_enabled := False\<rparr>]\<rparr>"

definition demo_db_inactive :: "int option \<Rightarrow> bool \<Rightarrow> db" where
  "demo_db_inactive l en =
     (demo_db ACTIVE l 0)
       \<lparr>aiComponents := [demo_component\<lparr>ac_isActive := False\<rparr>],
        planFeatures := [(demo_feature l)\<lparr>pf_enabled := en\<rparr>]\<rparr>"

definition demo_db_full :: db where
  "demo_db_full = (demo_db ACTIVE (Some 100) 0)\<lparr>usageTracking := [demo_usage 2147483647]\<rparr>"

text \<open>
  A calendar to run the examples with: days of 86400000 ms counted from the epoch, months
  of 30 days and years of 365 days. A delivery of the event \<open>evt-1\<close> for the PayPal
  subscription of the example, and a database whose subscription was cancelled for the
  end of its period, which is day 30.
\<close>

definition demo_cal :: datefns where
  "demo_cal =
     \<lparr>addMonths = (\<lambda>t n. t + n * 2592000000),
      addYears = (\<lambda>t n. t + n * 31536000000),
      startOfDay = (\<lambda>t. t - t mod 86400000),
      endOfDay = (\<lambda>t. t - t mod 86400000 + 86399999)\<rparr>"

definition demo_delivery :: "string \<Rightarrow> delivery" where
  "demo_delivery t =
     \<lparr>dl_event =
        \<lparr>ev_id = ''evt-1'', event_type = t,
         ev_resource = \<lparr>res_id = ''I-1'', billing_agreement_id = ''I-1'',
                        amount_total = ''29.00''\<rparr>\<rparr>,
      signatureValid = True, paypalApiOk = True, receivedAt = 1500\<rparr>"

definition demo_rollover_db :: db where
  "demo_rollover_db =
     \<lparr>users = [demo_user], subscriptionPlans = [demo_plan], aiComponents = [demo_component],
      planFeatures = [demo_feature (Some 100)],
      subscriptions =
        [(demo_subscription ACTIVE)
           \<lparr>currentPeriodStart := Some 0, currentPeriodEnd := Some 2592000000,
            cancelledAt := Some 1000, cancelAtPeriodEnd := True\<rparr>],
      usageTracking = [(demo_usage 40)\<lparr>periodStart := 0, periodEnd := 2592000000\<rparr>],
      payPalEvents = [], outbox = [], nextId = 1\<rparr>"

section \<open>Properties: admission\<close>

lemmas demo_defs = demo_user_def demo_plan_def demo_component_def demo_feature_def
  demo_subscription_def demo_usage_def demo_db_def demo_request_def demo_attached_def demo_db_disabled_def
  demo_db_inactive_def demo_db_full_def

lemma enforceQuota_frame: "snd (enforceQuota slug req d) = d"
  by (simp add: enforceQuota_def split: option.splits sum.splits)

lemma checkSubscription_frame: "snd (checkSubscription now req d) = d"
  by (simp add: checkSubscription_def split: option.splits sum.splits)

lemma admit_frame: "snd (admit slug now req d) = d"
proof (cases "checkSubscription now req d")
  case (Pair out d1)
  with checkSubscription_frame [of now req d] have d1: "d1 = d" by simp
  show ?thesis
    by (cases out) (simp_all add: admit_def Pair d1 enforceQuota_frame)
qed

text \<open>
  Claim C8. Admission has no side effect on the usage state: whatever the answer of
  \<open>checkSubscription\<close>, of \<open>enforceQuota\<close> and of the chain of both, the database
  they leave is the one they found, so every usage counter has the value it had.
\<close>

theorem admit_no_side_effects:
  "snd (checkSubscription now req d) = d \<and> snd (enforceQuota slug req' d) = d \<and>
   usageTracking (snd (admit slug now req d)) = usageTracking d"
  by (simp add: admit_frame enforceQuota_frame checkSubscription_frame)

text \<open>
  Claim C5, as amended. With an ACTIVE subscription attached to the request whose stored
  row has a current period, a component \<open>c\<close> that the slug resolves to and an enabled
  grant \<open>f\<close> for it in the plan, the current usage is the value of the first usage row of
  the subscription, the component and the current period, and 0 when there is none.
  When the component is active: a grant without limit is allowed with no remaining
  figure; a usage at or above the limit is refused with status 429, code
  \<open>QUOTA_EXCEEDED\<close>, the usage and the limit; any other usage is allowed with
  \<open>remaining = limit - usage\<close>. When the component is not active the answer is 404,
  whatever the grant and the usage.
\<close>

theorem quota_decision:
  assumes "req_subscription req = Some (s, p)"
      and "status s = ACTIVE"
      and "find (\<lambda>x. sub_id x = sub_id s) (subscriptions d) = Some s'"
      and "currentPeriodStart s' = Some ps"
      and "currentPeriodEnd s' = Some pe"
      and "find (\<lambda>x. ac_slug x = slug) (aiComponents d) = Some c"
      and "find (\<lambda>x. pf_planId x = plan_id p \<and> pf_aiComponentId x = ac_id c \<and> pf_enabled x)
             (planFeatures d) = Some f"
  shows "enforceQuota slug req d =
     (let usage = (case find (\<lambda>u. ut_subscriptionId u = sub_id s \<and>
                                   ut_aiComponentId u = ac_id c \<and>
                                   periodStart u = ps \<and> periodEnd u = pe) (usageTracking d) of
                     None \<Rightarrow> 0
                   | Some row \<Rightarrow> ut_value row)
      in if \<not> ac_isActive c
         then (Respond 404 (json_error ''AI component not found or inactive''), d)
         else
           (case limitValue f of
              None \<Rightarrow> (Next (req\<lparr>req_componentQuota :=
                         Some \<lparr>used = usage, limit = None, remaining = None\<rparr>\<rparr>), d)
            | Some lv \<Rightarrow>
                if usage \<ge> lv
                then (Respond 429 \<lparr>rb_error = ''Quota exceeded'',
                                   rb_code = Some ''QUOTA_EXCEEDED'',
                                   rb_current = Some usage, rb_limit = Some lv\<rparr>, d)
                else (Next (req\<lparr>req_componentQuota :=
                         Some \<lparr>used = usage, limit = Some lv,
                               remaining = Some (lv - usage)\<rparr>\<rparr>), d)))"
proof -
  let ?P = "\<lambda>u. ut_subscriptionId u = sub_id s \<and> ut_aiComponentId u = ac_id c \<and>
                 periodStart u = ps \<and> periodEnd u = pe"
  have u: "getComponentUsage d (sub_id s) (ac_id c) =
             Inr (case find ?P (usageTracking d) of None \<Rightarrow> 0 | Some row \<Rightarrow> ut_value row)"
    using assms(3-5)
    by (simp add: getComponentUsage_def subscription_findUnique_def split: option.splits)
  show ?thesis
    using assms(1,6,7)
    by (simp add: enforceQuota_def aIComponent_findUnique_def planFeature_findFirst_def u Let_def
          split: option.splits)
qed

theorem quota_decision_witness:
  "enforceQuota ''invoice_ocr'' demo_attached (demo_db ACTIVE (Some 100) 100) =
     (Respond 429 \<lparr>rb_error = ''Quota exceeded'', rb_code = Some ''QUOTA_EXCEEDED'',
                   rb_current = Some 100, rb_limit = Some 100\<rparr>, demo_db ACTIVE (Some 100) 100) \<and>
   enforceQuota ''invoice_ocr'' demo_attached (demo_db ACTIVE (Some 100) 99) =
     (Next (demo_attached\<lparr>req_componentQuota :=
              Some \<lparr>used = 99, limit = Some 100, remaining = Some 1\<rparr>\<rparr>),
      demo_db ACTIVE (Some 100) 99) \<and>
   enforceQuota ''invoice_ocr'' demo_attached (demo_db ACTIVE None 100) =
     (Next (demo_attached\<lparr>req_componentQuota :=
              Some \<lparr>used = 100, limit = None, remaining = None\<rparr>\<rparr>),
      demo_db ACTIVE None 100)"
proof -
  have 1: "req_subscription demo_attached = Some (demo_subscription ACTIVE, demo_plan)"
    by (simp add: demo_attached_def)
  have 2: "status (demo_subscription ACTIVE) = ACTIVE" by (simp add: demo_subscription_def)
  have 3: "find (\<lambda>x. sub_id x = sub_id (demo_subscription ACTIVE)) (subscriptions (demo_db ACTIVE l v))
             = Some (demo_subscription ACTIVE)" for l v
    by (simp add: demo_defs)
  have 4: "currentPeriodStart (demo_subscription ACTIVE) = Some 1000"
    by (simp add: demo_defs)
  have 5: "currentPeriodEnd (demo_subscription ACTIVE) = Some 2000"
    by (simp add: demo_defs)
  have 6: "find (\<lambda>x. ac_slug x = ''invoice_ocr'') (aiComponents (demo_db ACTIVE l v)) =
             Some demo_component" for l v
    by (simp add: demo_defs)
  have 7: "find (\<lambda>x. pf_planId x = plan_id demo_plan \<and> pf_aiComponentId x = ac_id demo_component \<and>
                      pf_enabled x) (planFeatures (demo_db ACTIVE l v)) = Some (demo_feature l)" for l v
    by (simp add: demo_defs)
  have a: "enforceQuota ''invoice_ocr'' demo_attached (demo_db ACTIVE (Some 100) 100) =
     (Respond 429 \<lparr>rb_error = ''Quota exceeded'', rb_code = Some ''QUOTA_EXCEEDED'',
                   rb_current = Some 100, rb_limit = Some 100\<rparr>, demo_db ACTIVE (Some 100) 100)"
    unfolding quota_decision [OF 1 2 3 4 5 6 7]
    by (simp add: demo_feature_def demo_component_def demo_usage_def demo_db_def
          demo_subscription_def)
  have b: "enforceQuota ''invoice_ocr'' demo_attached (demo_db ACTIVE (Some 100) 99) =
     (Next (demo_attached\<lparr>req_componentQuota :=
              Some \<lparr>used = 99, limit = Some 100, remaining = Some 1\<rparr>\<rparr>),
      demo_db ACTIVE (Some 100) 99)"
    unfolding quota_decision [OF 1 2 3 4 5 6 7]
    by (simp add: demo_feature_def demo_component_def demo_usage_def demo_db_def
          demo_subscription_def)
  have c: "enforceQuota ''invoice_ocr'' demo_attached (demo_db ACTIVE None 100) =
     (Next (demo_attached\<lparr>req_componentQuota :=
              Some \<lparr>used = 100, limit = None, remaining = None\<rparr>\<rparr>),
      demo_db ACTIVE None 100)"
    unfolding quota_decision [OF 1 2 3 4 5 6 7]
    by (simp add: demo_feature_def demo_component_def demo_usage_def demo_db_def
          demo_subscription_def)
  from a b c show ?thesis by simp
qed

text \<open>
  Claim C5 as stated fails: with an ACTIVE subscription attached and an enabled grant
  without limit, a component whose \<open>isActive\<close> flag is off is answered 404, not allowed.
\<close>

theorem inactive_component_quota_counterexample:
  "find (\<lambda>x. pf_planId x = ''p1'' \<and> pf_aiComponentId x = ''c1'' \<and> pf_enabled x)
     (planFeatures (demo_db_inactive None True)) = Some (demo_feature None) \<and>
   limitValue (demo_feature None) = None \<and>
   req_subscription demo_attached = Some (demo_subscription ACTIVE, demo_plan) \<and>
   enforceQuota ''invoice_ocr'' demo_attached (demo_db_inactive None True) =
     (Respond 404 (json_error ''AI component not found or inactive''),
      demo_db_inactive None True)"
  by (simp add: enforceQuota_def aIComponent_findUnique_def demo_defs)

text \<open>
  Claim C7, as amended. With an ACTIVE subscription attached and a plan that has, for the
  component the slug resolves to, no grant or only grants with \<open>enabled = false\<close>:
  \<open>enforceQuota\<close> never calls \<open>next()\<close>, whatever the usage table \<open>u\<close> holds. For an
  active component it answers 403 with the code \<open>FEATURE_NOT_AVAILABLE\<close>; for a
  component that is not active, and for a slug that resolves to no component, it answers
  404 without a code.
\<close>

theorem feature_not_in_plan:
  assumes "req_subscription req = Some (s, p)"
      and "status s = ACTIVE"
      and "\<forall>c. find (\<lambda>x. ac_slug x = slug) (aiComponents d) = Some c \<longrightarrow>
             (\<forall>f\<in>set (planFeatures d).
                pf_planId f = plan_id p \<and> pf_aiComponentId f = ac_id c \<longrightarrow> \<not> pf_enabled f)"
  shows "enforceQuota slug req (d\<lparr>usageTracking := u\<rparr>) =
           (case find (\<lambda>x. ac_slug x = slug) (aiComponents d) of
              None \<Rightarrow> Respond 404 (json_error ''AI component not found or inactive'')
            | Some c \<Rightarrow>
                if ac_isActive c
                then Respond 403 (json_code (ac_name c @ '' not available in your plan'')
                                    ''FEATURE_NOT_AVAILABLE'')
                else Respond 404 (json_error ''AI component not found or inactive''),
            d\<lparr>usageTracking := u\<rparr>)"
proof (cases "find (\<lambda>x. ac_slug x = slug) (aiComponents d)")
  case None
  then have "aIComponent_findUnique (d\<lparr>usageTracking := u\<rparr>) slug = None"
    by (simp add: aIComponent_findUnique_def)
  with None assms(1) show ?thesis by (simp add: enforceQuota_def)
next
  case (Some c)
  with assms(3) have "\<forall>f\<in>set (planFeatures d).
      pf_planId f = plan_id p \<and> pf_aiComponentId f = ac_id c \<longrightarrow> \<not> pf_enabled f"
    by blast
  then have "planFeature_findFirst (d\<lparr>usageTracking := u\<rparr>) (plan_id p) (ac_id c) = None"
    by (auto simp: planFeature_findFirst_def find_None_iff)
  moreover have "aIComponent_findUnique (d\<lparr>usageTracking := u\<rparr>) slug = Some c"
    using Some by (simp add: aIComponent_findUnique_def)
  ultimately show ?thesis
    using assms(1) Some by (simp add: enforceQuota_def)
qed

theorem feature_not_in_plan_witness:
  "enforceQuota ''invoice_ocr'' demo_attached (demo_db_disabled\<lparr>usageTracking := []\<rparr>) =
     (Respond 403 (json_code ''Invoice OCR not available in your plan'' ''FEATURE_NOT_AVAILABLE''),
      demo_db_disabled\<lparr>usageTracking := []\<rparr>) \<and>
   enforceQuota ''invoice_ocr'' demo_attached
       ((demo_db_inactive (Some 100) False)\<lparr>usageTracking := []\<rparr>) =
     (Respond 404 (json_error ''AI component not found or inactive''),
      (demo_db_inactive (Some 100) False)\<lparr>usageTracking := []\<rparr>)"
proof -
  have 1: "req_subscription demo_attached = Some (demo_subscription ACTIVE, demo_plan)"
    by (simp add: demo_attached_def)
  have 2: "status (demo_subscription ACTIVE) = ACTIVE" by (simp add: demo_subscription_def)
  have 3: "find (\<lambda>x. ac_slug x = ''invoice_ocr'') (aiComponents demo_db_disabled) =
             Some demo_component"
          "find (\<lambda>x. ac_slug x = ''invoice_ocr'') (aiComponents (demo_db_inactive (Some 100) False)) =
             Some (demo_component\<lparr>ac_isActive := False\<rparr>)"
    by (simp_all add: demo_defs)
  have 4: "\<forall>c. find (\<lambda>x. ac_slug x = ''invoice_ocr'') (aiComponents demo_db_disabled) = Some c \<longrightarrow>
             (\<forall>f\<in>set (planFeatures demo_db_disabled).
                pf_planId f = plan_id demo_plan \<and> pf_aiComponentId f = ac_id c
                  \<longrightarrow> \<not> pf_enabled f)"
          "\<forall>c. find (\<lambda>x. ac_slug x = ''invoice_ocr'')
                  (aiComponents (demo_db_inactive (Some 100) False)) = Some c \<longrightarrow>
             (\<forall>f\<in>set (planFeatures (demo_db_inactive (Some 100) False)).
                pf_planId f = plan_id demo_plan \<and> pf_aiComponentId f = ac_id c
                  \<longrightarrow> \<not> pf_enabled f)"
    by (simp_all add: demo_defs)
  show ?thesis
    using feature_not_in_plan [OF 1 2 4(1), of "[]"] feature_not_in_plan [OF 1 2 4(2), of "[]"] 3
    by (simp add: demo_component_def)
qed

text \<open>
  Claim C7 as stated fails: for a component whose \<open>isActive\<close> flag is off and whose only
  grant in the plan has \<open>enabled = false\<close>, the answer is 404 and carries no code, not
  \<open>FEATURE_NOT_AVAILABLE\<close>.
\<close>

theorem inactive_component_feature_counterexample:
  "req_subscription demo_attached = Some (demo_subscription ACTIVE, demo_plan) \<and>
   map pf_enabled (planFeatures (demo_db_inactive (Some 100) False)) = [False] \<and>
   fst (enforceQuota ''invoice_ocr'' demo_attached (demo_db_inactive (Some 100) False)) =
     Respond 404 (json_error ''AI component not found or inactive'') \<and>
   rb_code (json_error ''AI component not found or inactive'') = None"
  by (simp add: enforceQuota_def aIComponent_findUnique_def json_error_def demo_defs)

lemma enforceQuota_keeps_subscription:
  "fst (enforceQuota slug req d) = Next req' \<Longrightarrow> req_subscription req' = req_subscription req"
  by (auto simp: enforceQuota_def split: option.splits sum.splits if_splits)

lemma checkSubscription_attached:
  assumes "fst (checkSubscription now req d) = Next req'"
  shows "\<exists>s p. req_subscription req' = Some (s, p) \<and> s \<in> set (subscriptions d) \<and>
               status s = ACTIVE \<and>
               (case currentPeriodEnd s of None \<Rightarrow> True | Some e \<Rightarrow> \<not> now > e)"
proof -
  from assms obtain uid s sp where
    u: "req_user req = Some uid" and
    f: "find (\<lambda>s. userId s = uid \<and> status s = ACTIVE) (subscriptions d) = Some s" and
    i: "include_plan d s = Inr sp" and
    n: "\<not> (case currentPeriodEnd (fst sp) of None \<Rightarrow> False | Some e \<Rightarrow> now > e)" and
    r: "req' = req\<lparr>req_subscription := Some sp\<rparr>"
    by (auto simp: checkSubscription_def split: option.splits sum.splits if_splits)
  from i have sp: "fst sp = s"
    by (auto simp: include_plan_def split: option.splits)
  from f have "s \<in> set (subscriptions d)" "status s = ACTIVE"
    by (auto simp: find_Some_iff)
  with n r sp show ?thesis
    by (cases sp) (auto split: option.splits)
qed

lemma admit_attached:
  assumes "fst (admit slug now req d) = Next req'"
  shows "\<exists>s p. req_subscription req' = Some (s, p) \<and> s \<in> set (subscriptions d) \<and>
               status s = ACTIVE \<and>
               (case currentPeriodEnd s of None \<Rightarrow> True | Some e \<Rightarrow> \<not> now > e)"
proof (cases "checkSubscription now req d")
  case (Pair out d1)
  show ?thesis
  proof (cases out)
    case (Respond st b)
    with Pair assms show ?thesis by (simp add: admit_def)
  next
    case (Next req1)
    with Pair assms have e: "fst (enforceQuota slug req1 d1) = Next req'"
      by (simp add: admit_def)
    from Pair Next have c: "fst (checkSubscription now req d) = Next req1" by simp
    from enforceQuota_keeps_subscription [OF e] checkSubscription_attached [OF c]
    show ?thesis by simp
  qed
qed

text \<open>
  Claim C6. A subscription \<open>s\<close> that is not ACTIVE is never admitted: a user who has no
  ACTIVE subscription gets 403 \<open>NO_SUBSCRIPTION\<close> from the admission chain; no request
  passes the chain with \<open>s\<close> attached; and \<open>hasFeatureAccess\<close> on \<open>s\<close> answers
  \<open>hasAccess = false\<close> without usage or limit (or throws, when a required relation of
  the subscription does not resolve).
\<close>

theorem inactive_subscription_denied:
  assumes "status s \<noteq> ACTIVE"
  shows "(req_user req = Some (userId s) \<and>
          (\<forall>t\<in>set (subscriptions d). userId t = userId s \<longrightarrow> status t \<noteq> ACTIVE) \<longrightarrow>
            admit slug now req d =
              (Respond 403 (json_code ''No active subscription'' ''NO_SUBSCRIPTION''), d)) \<and>
         (\<forall>req'. fst (admit slug now req d) = Next req' \<longrightarrow>
            map_option fst (req_subscription req') \<noteq> Some s) \<and>
         (subscription_findUnique d sid = Some s \<longrightarrow>
            hasFeatureAccess d sid slug =
              (case include_plan d s of
                 Inl e \<Rightarrow> Inl e
               | Inr sp \<Rightarrow>
                   (case plan_features d (plan_id (snd sp)) of
                      Inl e \<Rightarrow> Inl e
                    | Inr fs \<Rightarrow> Inr \<lparr>hasAccess = False, fa_limit = None, fa_used = None\<rparr>)))"
proof (intro conjI impI allI)
  assume a: "req_user req = Some (userId s) \<and>
          (\<forall>t\<in>set (subscriptions d). userId t = userId s \<longrightarrow> status t \<noteq> ACTIVE)"
  then have "find (\<lambda>t. userId t = userId s \<and> status t = ACTIVE) (subscriptions d) = None"
    by (auto simp: find_None_iff)
  with a show "admit slug now req d =
              (Respond 403 (json_code ''No active subscription'' ''NO_SUBSCRIPTION''), d)"
    by (simp add: admit_def checkSubscription_def)
next
  fix req'
  assume "fst (admit slug now req d) = Next req'"
  from admit_attached [OF this] assms
  show "map_option fst (req_subscription req') \<noteq> Some s" by auto
next
  assume f: "subscription_findUnique d sid = Some s"
  have "fst sp = s" if "include_plan d s = Inr sp" for sp
    using that by (auto simp: include_plan_def split: option.splits)
  with f assms show "hasFeatureAccess d sid slug =
              (case include_plan d s of
                 Inl e \<Rightarrow> Inl e
               | Inr sp \<Rightarrow>
                   (case plan_features d (plan_id (snd sp)) of
                      Inl e \<Rightarrow> Inl e
                    | Inr fs \<Rightarrow> Inr \<lparr>hasAccess = False, fa_limit = None, fa_used = None\<rparr>))"
    by (auto simp: hasFeatureAccess_def split: sum.splits)
qed

text \<open>
  Claim C10. A subscription \<open>s\<close> stored as ACTIVE whose period end lies strictly before
  the time of the call is not admitted: when \<open>s\<close> is the ACTIVE subscription that the
  lookup for the user finds, the admission chain answers 403 \<open>SUBSCRIPTION_EXPIRED\<close>,
  and no request passes the chain with \<open>s\<close> attached. The stored status plays no part.
\<close>

theorem expired_period_denied:
  assumes "status s = ACTIVE"
      and "currentPeriodEnd s = Some e"
      and "e < now"
  shows "(req_user req = Some (userId s) \<and>
          find (\<lambda>t. userId t = userId s \<and> status t = ACTIVE) (subscriptions d) = Some s \<and>
          include_plan d s = Inr (s, p) \<longrightarrow>
            admit slug now req d =
              (Respond 403 (json_code ''Subscription expired'' ''SUBSCRIPTION_EXPIRED''), d)) \<and>
         (\<forall>req'. fst (admit slug now req d) = Next req' \<longrightarrow>
            map_option fst (req_subscription req') \<noteq> Some s)"
proof (intro conjI impI allI)
  assume "req_user req = Some (userId s) \<and>
          find (\<lambda>t. userId t = userId s \<and> status t = ACTIVE) (subscriptions d) = Some s \<and>
          include_plan d s = Inr (s, p)"
  with assms show "admit slug now req d =
              (Respond 403 (json_code ''Subscription expired'' ''SUBSCRIPTION_EXPIRED''), d)"
    by (simp add: admit_def checkSubscription_def)
next
  fix req'
  assume "fst (admit slug now req d) = Next req'"
  from admit_attached [OF this] assms
  show "map_option fst (req_subscription req') \<noteq> Some s" by auto
qed

theorem inactive_subscription_denied_witness:
  "status (demo_subscription SUSPENDED) \<noteq> ACTIVE \<and>
   admit ''invoice_ocr'' 1500 demo_request (demo_db SUSPENDED (Some 100) 0) =
     (Respond 403 (json_code ''No active subscription'' ''NO_SUBSCRIPTION''),
      demo_db SUSPENDED (Some 100) 0) \<and>
   hasFeatureAccess (demo_db SUSPENDED (Some 100) 0) ''s1'' ''invoice_ocr'' =
     Inr \<lparr>hasAccess = False, fa_limit = None, fa_used = None\<rparr>"
proof -
  have h: "status (demo_subscription SUSPENDED) \<noteq> ACTIVE"
    by (simp add: demo_subscription_def)
  have u: "req_user demo_request = Some (userId (demo_subscription SUSPENDED))"
    by (simp add: demo_defs)
  have a: "\<forall>t\<in>set (subscriptions (demo_db SUSPENDED (Some 100) 0)).
             userId t = userId (demo_subscription SUSPENDED) \<longrightarrow> status t \<noteq> ACTIVE"
    by (simp add: demo_defs)
  have f: "subscription_findUnique (demo_db SUSPENDED (Some 100) 0) ''s1'' =
             Some (demo_subscription SUSPENDED)"
    by (simp add: subscription_findUnique_def demo_defs)
  have i: "include_plan (demo_db SUSPENDED (Some 100) 0) (demo_subscription SUSPENDED) =
             Inr (demo_subscription SUSPENDED, demo_plan)"
    by (simp add: include_plan_def demo_defs)
  have p: "plan_features (demo_db SUSPENDED (Some 100) 0) (plan_id demo_plan) =
             Inr [(demo_feature (Some 100), demo_component)]"
    by (simp add: plan_features_def include_aiComponent_def aIComponent_byId_def demo_defs)
  show ?thesis
    using inactive_subscription_denied [OF h, of demo_request "demo_db SUSPENDED (Some 100) 0"
            "''invoice_ocr''" 1500 "''s1''"] h u a f i p
    by simp
qed

theorem expired_period_denied_witness:
  "status (demo_subscription ACTIVE) = ACTIVE \<and>
   currentPeriodEnd (demo_subscription ACTIVE) = Some 2000 \<and> (2000::int) < 2001 \<and>
   admit ''invoice_ocr'' 2001 demo_request (demo_db ACTIVE (Some 100) 0) =
     (Respond 403 (json_code ''Subscription expired'' ''SUBSCRIPTION_EXPIRED''),
      demo_db ACTIVE (Some 100) 0)"
proof -
  have 1: "status (demo_subscription ACTIVE) = ACTIVE" by (simp add: demo_subscription_def)
  have 2: "currentPeriodEnd (demo_subscription ACTIVE) = Some 2000"
    by (simp add: demo_subscription_def)
  have 3: "(2000::int) < 2001" by simp
  have u: "req_user demo_request = Some (userId (demo_subscription ACTIVE))"
    by (simp add: demo_defs)
  have f: "find (\<lambda>t. userId t = userId (demo_subscription ACTIVE) \<and> status t = ACTIVE)
             (subscriptions (demo_db ACTIVE (Some 100) 0)) = Some (demo_subscription ACTIVE)"
    by (simp add: demo_defs)
  have i: "include_plan (demo_db ACTIVE (Some 100) 0) (demo_subscription ACTIVE) =
             Inr (demo_subscription ACTIVE, demo_plan)"
    by (simp add: include_plan_def demo_defs)
  show ?thesis
    using expired_period_denied [OF 1 2 3, of demo_request "demo_db ACTIVE (Some 100) 0"
            demo_plan "''invoice_ocr''"] 1 2 u f i
    by simp
qed

section \<open>Properties: usage recording\<close>

lemma find_map_same:
  assumes "\<And>x. P (g x) = P x"
  shows "find P (map g xs) = map_option g (find P xs)"
  using assms by (induction xs) simp_all

lemma find_append_new:
  "find P xs = None \<Longrightarrow> P y \<Longrightarrow> find P (xs @ [y]) = Some y"
  by (induction xs) (simp_all split: if_splits)

lemma find_in_set: "find P xs = Some x \<Longrightarrow> x \<in> set xs \<and> P x"
  by (induction xs) (auto split: if_splits)

lemma sendEmail_usage: "usageTracking (snd (sendEmail uid m d)) = usageTracking d"
  by (simp add: sendEmail_def split: sum.splits)

lemma checkQuotaWarnings_usage:
  "usageTracking (snd (checkQuotaWarnings sid cid d)) = usageTracking d"
  by (simp add: checkQuotaWarnings_def sendQuotaExceededEmail_def sendQuotaWarningEmail_def
        sendEmail_usage split: option.splits sum.splits list.splits)

lemma update_by_key:
  assumes "distinct (map key rows)" and "row \<in> set rows"
  shows "map (\<lambda>u. if key u = key row then g u else u) rows =
         map (\<lambda>u. if u = row then g u else u) rows"
proof (rule map_cong [OF refl])
  fix u assume u: "u \<in> set rows"
  from assms(1) have "inj_on key (set rows)" by (simp add: distinct_map)
  from inj_onD [OF this _ u assms(2)] have "key u = key row \<longleftrightarrow> u = row"
    by blast
  then show "(if key u = key row then g u else u) = (if u = row then g u else u)"
    by simp
qed

lemma find_by_key:
  assumes "distinct (map key rows)" and "row \<in> set rows"
  shows "find (\<lambda>u. key u = key row) rows = Some row"
  using assms
proof (induction rows)
  case Nil
  then show ?case by simp
next
  case (Cons x xs)
  show ?case
  proof (cases "x = row")
    case True
    then show ?thesis by simp
  next
    case False
    with Cons.prems have r: "row \<in> set xs" and k: "key x \<notin> key ` set xs" and dx: "distinct (map key xs)"
      by simp_all
    from r k have "key x \<noteq> key row" by blast
    with Cons.IH [OF dx r] show ?thesis by simp
  qed
qed

lemma incrementUsage_cases:
  assumes s: "subscription_findUnique d sid = Some s"
      and c: "aIComponent_findUnique d slug = Some c"
      and ps: "currentPeriodStart s = Some ps"
      and pe: "currentPeriodEnd s = Some pe"
      and pk: "distinct (map ut_id (usageTracking d))"
  shows "incrementUsage sid slug amount d =
     (case find (\<lambda>u. ut_subscriptionId u = sid \<and> ut_aiComponentId u = ac_id c \<and>
                      periodStart u = ps \<and> periodEnd u = pe) (usageTracking d) of
        Some row \<Rightarrow>
          if int4 (ut_value row + amount)
          then checkQuotaWarnings sid (ac_id c)
                 (d\<lparr>usageTracking :=
                      map (\<lambda>u. if u = row then u\<lparr>ut_value := ut_value u + amount\<rparr> else u)
                          (usageTracking d),
                    nextId := nextId d\<rparr>)
          else (Inl outOfRange, d)
      | None \<Rightarrow>
          if int4 amount
          then checkQuotaWarnings sid (ac_id c)
                 (d\<lparr>usageTracking := usageTracking d @
                      [\<lparr>ut_id = nextId d, ut_subscriptionId = sid, ut_aiComponentId = ac_id c,
                        metricType = ''count'', ut_value = amount, periodStart = ps,
                        periodEnd = pe\<rparr>],
                    nextId := Suc (nextId d)\<rparr>)
          else (Inl outOfRange, d))"
proof -
  let ?P = "\<lambda>u. ut_subscriptionId u = sid \<and> ut_aiComponentId u = ac_id c \<and>
                 periodStart u = ps \<and> periodEnd u = pe"
  let ?new = "\<lparr>ut_id = 0, ut_subscriptionId = sid, ut_aiComponentId = ac_id c,
               metricType = ''count'', ut_value = amount, periodStart = ps, periodEnd = pe\<rparr>"
  have u: "incrementUsage sid slug amount d =
     (case find ?P (usageTracking d) of
        Some existingUsage \<Rightarrow>
          (case usageTracking_increment (ut_id existingUsage) amount d of
             Inl e \<Rightarrow> (Inl e, d)
           | Inr d1 \<Rightarrow> checkQuotaWarnings sid (ac_id c) d1)
      | None \<Rightarrow>
          (case usageTracking_create ?new d of
             Inl e \<Rightarrow> (Inl e, d)
           | Inr d1 \<Rightarrow> checkQuotaWarnings sid (ac_id c) d1))"
    unfolding incrementUsage_def by (simp only: s c ps pe option.case)
  show ?thesis
  proof (cases "find ?P (usageTracking d)")
    case None
    have "usageTracking_create ?new d =
            (if int4 amount
             then Inr (d\<lparr>usageTracking := usageTracking d @
                          [\<lparr>ut_id = nextId d, ut_subscriptionId = sid,
                            ut_aiComponentId = ac_id c, metricType = ''count'',
                            ut_value = amount, periodStart = ps, periodEnd = pe\<rparr>],
                        nextId := Suc (nextId d)\<rparr>)
             else Inl outOfRange)"
      by (simp add: usageTracking_create_def usageTracking_insert_def)
    then show ?thesis
      by (simp only: u None option.case) simp
  next
    case (Some row)
    have m: "row \<in> set (usageTracking d)" by (rule conjunct1 [OF find_in_set [OF Some]])
    note k = update_by_key [OF pk m, of "\<lambda>u. u\<lparr>ut_value := ut_value u + amount\<rparr>"]
    note f = find_by_key [OF pk m]
    have "usageTracking_increment (ut_id row) amount d =
            (if int4 (ut_value row + amount)
             then Inr (d\<lparr>usageTracking :=
                          map (\<lambda>u. if u = row then u\<lparr>ut_value := ut_value u + amount\<rparr> else u)
                              (usageTracking d),
                        nextId := nextId d\<rparr>)
             else Inl outOfRange)"
      unfolding usageTracking_increment_def
      by (simp only: f option.case k) simp
    then show ?thesis
      by (simp only: u Some option.case) simp
  qed
qed

text \<open>
  Claim C9, as amended. \<open>incrementUsage\<close> on an existing subscription with a current
  period, for a component that the slug resolves to, where usage row ids are distinct
  (they are the primary key). When a usage row exists for the subscription, the
  component and the current period and its value plus \<open>amount\<close> fits the 32-bit column,
  that row's value grows by exactly \<open>amount\<close> and every other row stays as it is. When
  none exists and \<open>amount\<close> fits, one row for the current period is added with value
  \<open>amount\<close> and the existing rows stay as they are. When the value to write does not
  fit, the call throws and the database stays as it was.
\<close>

theorem incrementUsage_counter:
  assumes "find (\<lambda>x. sub_id x = sid) (subscriptions d) = Some s"
      and "find (\<lambda>x. ac_slug x = slug) (aiComponents d) = Some c"
      and "currentPeriodStart s = Some ps"
      and "currentPeriodEnd s = Some pe"
      and "distinct (map ut_id (usageTracking d))"
  shows "(case find (\<lambda>u. ut_subscriptionId u = sid \<and> ut_aiComponentId u = ac_id c \<and>
                       periodStart u = ps \<and> periodEnd u = pe) (usageTracking d) of
            Some row \<Rightarrow>
              if int4 (ut_value row + amount)
              then usageTracking (snd (incrementUsage sid slug amount d)) =
                     map (\<lambda>u. if u = row then u\<lparr>ut_value := ut_value u + amount\<rparr> else u)
                         (usageTracking d)
              else incrementUsage sid slug amount d = (Inl outOfRange, d)
          | None \<Rightarrow>
              if int4 amount
              then usageTracking (snd (incrementUsage sid slug amount d)) =
                     usageTracking d @
                       [\<lparr>ut_id = nextId d, ut_subscriptionId = sid, ut_aiComponentId = ac_id c,
                         metricType = ''count'', ut_value = amount, periodStart = ps,
                         periodEnd = pe\<rparr>]
              else incrementUsage sid slug amount d = (Inl outOfRange, d))"
proof -
  have s: "subscription_findUnique d sid = Some s"
    using assms(1) by (simp add: subscription_findUnique_def)
  have c: "aIComponent_findUnique d slug = Some c"
    using assms(2) by (simp add: aIComponent_findUnique_def)
  note i = incrementUsage_cases [OF s c assms(3) assms(4) assms(5), of amount]
  show ?thesis
    unfolding i
    by (simp add: checkQuotaWarnings_usage split: option.split)
qed

theorem incrementUsage_counter_witness:
  "usageTracking (snd (incrementUsage ''s1'' ''invoice_ocr'' 3 (demo_db ACTIVE (Some 100) 79))) =
     [demo_usage 82] \<and>
   usageTracking (snd (incrementUsage ''s1'' ''invoice_ocr'' 3
       ((demo_db ACTIVE (Some 100) 79)\<lparr>usageTracking := []\<rparr>))) =
     [(demo_usage 3)\<lparr>ut_id := 1\<rparr>]"
proof -
  let ?d = "demo_db ACTIVE (Some 100) 79"
  let ?e = "?d\<lparr>usageTracking := []\<rparr>"
  have 1: "find (\<lambda>x. sub_id x = ''s1'') (subscriptions ?d) = Some (demo_subscription ACTIVE)"
          "find (\<lambda>x. sub_id x = ''s1'') (subscriptions ?e) = Some (demo_subscription ACTIVE)"
    by (simp_all add: demo_defs)
  have 2: "find (\<lambda>x. ac_slug x = ''invoice_ocr'') (aiComponents ?d) = Some demo_component"
          "find (\<lambda>x. ac_slug x = ''invoice_ocr'') (aiComponents ?e) = Some demo_component"
    by (simp_all add: demo_defs)
  have 3: "currentPeriodStart (demo_subscription ACTIVE) = Some 1000"
    by (simp add: demo_defs)
  have 4: "currentPeriodEnd (demo_subscription ACTIVE) = Some 2000"
    by (simp add: demo_defs)
  have 5: "distinct (map ut_id (usageTracking ?d))" "distinct (map ut_id (usageTracking ?e))"
    by (simp_all add: demo_defs)
  from incrementUsage_counter [OF 1(1) 2(1) 3 4 5(1), of 3]
  have a: "usageTracking (snd (incrementUsage ''s1'' ''invoice_ocr'' 3 ?d)) = [demo_usage 82]"
    by (simp add: demo_defs int4_def)
  from incrementUsage_counter [OF 1(2) 2(2) 3 4 5(2), of 3]
  have b: "usageTracking (snd (incrementUsage ''s1'' ''invoice_ocr'' 3 ?e)) =
             [(demo_usage 3)\<lparr>ut_id := 1\<rparr>]"
    by (simp add: demo_defs int4_def)
  from a b show ?thesis by simp
qed

text \<open>
  Claim C9 as stated fails: at the top of the column's range the counter does not grow.
  An increment by 1 of a counter that stands at 2147483647 throws and leaves the row.
\<close>

theorem counter_overflow_counterexample:
  "map ut_value (usageTracking demo_db_full) = [2147483647] \<and>
   incrementUsage ''s1'' ''invoice_ocr'' 1 demo_db_full = (Inl outOfRange, demo_db_full)"
  by (simp add: incrementUsage_def subscription_findUnique_def aIComponent_findUnique_def
        usageTracking_increment_def int4_def demo_defs)

lemma frame_subscription_findUnique:
  "subscription_findUnique (d\<lparr>usageTracking := u, nextId := n\<rparr>) i = subscription_findUnique d i"
  by (simp add: subscription_findUnique_def)

lemma frame_include_plan:
  "include_plan (d\<lparr>usageTracking := u, nextId := n\<rparr>) s = include_plan d s"
  by (simp add: include_plan_def)

lemma frame_include_aiComponent:
  "include_aiComponent (d\<lparr>usageTracking := u, nextId := n\<rparr>) = include_aiComponent d"
  by (rule ext) (simp add: include_aiComponent_def aIComponent_byId_def)

lemma frame_getUserEmail:
  "getUserEmail (d\<lparr>usageTracking := u, nextId := n\<rparr>) uid = getUserEmail d uid"
  by (simp add: getUserEmail_def)

lemma sendEmail_outbox:
  "getUserEmail d uid = Inr addr \<Longrightarrow> outbox (snd (sendEmail uid m d)) = outbox d @ [m]"
  by (simp add: sendEmail_def)

lemma checkQuotaWarnings_outbox:
  assumes s: "subscription_findUnique d sid = Some s"
      and p: "include_plan d s = Inr (s, p)"
      and f: "all_or_error (include_aiComponent d)
                (filter (\<lambda>f. pf_planId f = plan_id p \<and> pf_aiComponentId f = cid)
                        (planFeatures d)) = Inr ((f, c') # rest)"
      and l: "limitValue f = Some l" "l \<noteq> 0"
      and m: "getUserEmail d (userId s) = Inr addr"
      and v: "getComponentUsage (d\<lparr>usageTracking := u, nextId := n\<rparr>) sid cid = Inr newValue"
  shows "outbox (snd (checkQuotaWarnings sid cid (d\<lparr>usageTracking := u, nextId := n\<rparr>))) =
     outbox d @
       (if percentage_of newValue l \<ge> 100
        then [QuotaExceededEmail (userId s) (ac_name c') newValue l]
        else if percentage_of newValue l \<ge> 90
        then [QuotaWarningEmail (userId s) (ac_name c') newValue l 90]
        else if percentage_of newValue l \<ge> 80
        then [QuotaWarningEmail (userId s) (ac_name c') newValue l 80]
        else [])"
proof -
  let ?d1 = "d\<lparr>usageTracking := u, nextId := n\<rparr>"
  have m1: "getUserEmail ?d1 (userId s) = Inr addr"
    using m by (simp only: frame_getUserEmail)
  have o: "outbox ?d1 = outbox d" by simp
  have pf: "planFeatures ?d1 = planFeatures d" by simp
  have "checkQuotaWarnings sid cid ?d1 =
     (if percentage_of newValue l \<ge> 100
      then sendQuotaExceededEmail (userId s) (ac_name c') newValue l ?d1
      else if percentage_of newValue l \<ge> 90
      then sendQuotaWarningEmail (userId s) (ac_name c') newValue l 90 ?d1
      else if percentage_of newValue l \<ge> 80
      then sendQuotaWarningEmail (userId s) (ac_name c') newValue l 80 ?d1
      else (Inr (), ?d1))"
    unfolding checkQuotaWarnings_def
    by (simp only: frame_subscription_findUnique frame_include_plan frame_include_aiComponent
          pf s p f l v option.case sum.case list.case prod.case fst_conv snd_conv if_False)
  then show ?thesis
    by (simp add: sendQuotaExceededEmail_def sendQuotaWarningEmail_def
          sendEmail_outbox [OF m1] o)
qed

lemma getComponentUsage_unfold:
  assumes "subscription_findUnique d sid = Some s"
      and "currentPeriodStart s = Some ps"
      and "currentPeriodEnd s = Some pe"
  shows "getComponentUsage (d\<lparr>usageTracking := u, nextId := n\<rparr>) sid cid =
     Inr (case find (\<lambda>r. ut_subscriptionId r = sid \<and> ut_aiComponentId r = cid \<and>
                          periodStart r = ps \<and> periodEnd r = pe) u of
            None \<Rightarrow> 0
          | Some usage \<Rightarrow> ut_value usage)"
proof -
  have u: "usageTracking (d\<lparr>usageTracking := u, nextId := n\<rparr>) = u" by simp
  show ?thesis
    unfolding getComponentUsage_def
    by (simp only: frame_subscription_findUnique assms u option.case split: option.split)
       simp
qed

text \<open>
  Claim C2, as amended. After \<open>incrementUsage\<close> on a component whose grant has a limit
  that is neither null nor zero, the notification depends on the new value alone. When
  the new value fits the 32-bit column: at or above 100% of the limit one quota-exceeded
  mail is sent, else at or above 90% one 90%-warning, else at or above 80% one
  80%-warning, else nothing; the value before the increment plays no part. When the new
  value does not fit, the update throws and nothing is sent. In particular an increment
  from 79 to 82 of 100 sends exactly one 80%-warning.
\<close>

theorem incrementUsage_notification:
  assumes s: "find (\<lambda>x. sub_id x = sid) (subscriptions d) = Some s"
      and c: "find (\<lambda>x. ac_slug x = slug) (aiComponents d) = Some c"
      and ps: "currentPeriodStart s = Some ps"
      and pe: "currentPeriodEnd s = Some pe"
      and pk: "distinct (map ut_id (usageTracking d))"
      and p: "include_plan d s = Inr (s, p)"
      and f: "all_or_error (include_aiComponent d)
                (filter (\<lambda>f. pf_planId f = plan_id p \<and> pf_aiComponentId f = ac_id c)
                        (planFeatures d)) = Inr ((f, c') # rest)"
      and l: "limitValue f = Some l" "l \<noteq> 0"
      and m: "getUserEmail d (userId s) = Inr addr"
  shows "outbox (snd (incrementUsage sid slug amount d)) =
     outbox d @
       (let newValue =
              (case find (\<lambda>u. ut_subscriptionId u = sid \<and> ut_aiComponentId u = ac_id c \<and>
                               periodStart u = ps \<and> periodEnd u = pe) (usageTracking d) of
                 Some row \<Rightarrow> ut_value row + amount
               | None \<Rightarrow> amount)
        in if \<not> int4 newValue then []
           else if percentage_of newValue l \<ge> 100
           then [QuotaExceededEmail (userId s) (ac_name c') newValue l]
           else if percentage_of newValue l \<ge> 90
           then [QuotaWarningEmail (userId s) (ac_name c') newValue l 90]
           else if percentage_of newValue l \<ge> 80
           then [QuotaWarningEmail (userId s) (ac_name c') newValue l 80]
           else [])"
proof -
  let ?P = "\<lambda>u. ut_subscriptionId u = sid \<and> ut_aiComponentId u = ac_id c \<and>
                 periodStart u = ps \<and> periodEnd u = pe"
  have s': "subscription_findUnique d sid = Some s"
    using s by (simp add: subscription_findUnique_def)
  have c'': "aIComponent_findUnique d slug = Some c"
    using c by (simp add: aIComponent_findUnique_def)
  note i = incrementUsage_cases [OF s' c'' ps pe pk, of amount]
  show ?thesis
  proof (cases "find ?P (usageTracking d)")
    case None
    let ?u = "usageTracking d @
                [\<lparr>ut_id = nextId d, ut_subscriptionId = sid, ut_aiComponentId = ac_id c,
                  metricType = ''count'', ut_value = amount, periodStart = ps, periodEnd = pe\<rparr>]"
    have "find ?P ?u =
            Some \<lparr>ut_id = nextId d, ut_subscriptionId = sid, ut_aiComponentId = ac_id c,
                  metricType = ''count'', ut_value = amount, periodStart = ps, periodEnd = pe\<rparr>"
      by (rule find_append_new [OF None]) simp
    then have v: "getComponentUsage (d\<lparr>usageTracking := ?u, nextId := Suc (nextId d)\<rparr>) sid (ac_id c)
                    = Inr amount"
      by (simp only: getComponentUsage_unfold [OF s' ps pe] option.case) simp
    show ?thesis
    proof (cases "int4 amount")
      case True
      then show ?thesis
        by (simp only: i None option.case if_True checkQuotaWarnings_outbox [OF s' p f l m v]
              Let_def not_True_eq_False if_False)
    next
      case False
      then show ?thesis
        by (simp only: i None option.case if_False Let_def snd_conv not_False_eq_True if_True
              append_Nil2)
    qed
  next
    case (Some row)
    let ?g = "\<lambda>r. if r = row then r\<lparr>ut_value := ut_value r + amount\<rparr> else r"
    let ?u = "map ?g (usageTracking d)"
    have "find ?P ?u = map_option ?g (find ?P (usageTracking d))"
      by (rule find_map_same) simp
    then have "find ?P ?u = Some (row\<lparr>ut_value := ut_value row + amount\<rparr>)"
      by (simp only: Some option.map refl if_True)
    then have v: "getComponentUsage (d\<lparr>usageTracking := ?u, nextId := nextId d\<rparr>) sid (ac_id c)
                    = Inr (ut_value row + amount)"
      by (simp only: getComponentUsage_unfold [OF s' ps pe] option.case) simp
    show ?thesis
    proof (cases "int4 (ut_value row + amount)")
      case True
      then show ?thesis
        by (simp only: i Some option.case if_True checkQuotaWarnings_outbox [OF s' p f l m v]
              Let_def not_True_eq_False if_False)
    next
      case False
      then show ?thesis
        by (simp only: i Some option.case if_False Let_def snd_conv not_False_eq_True if_True
              append_Nil2)
    qed
  qed
qed

theorem incrementUsage_notification_witness:
  "outbox (snd (incrementUsage ''s1'' ''invoice_ocr'' 3 (demo_db ACTIVE (Some 100) 79))) =
     [QuotaWarningEmail ''u1'' ''Invoice OCR'' 82 100 80] \<and>
   outbox (snd (incrementUsage ''s1'' ''invoice_ocr'' 1 demo_db_full)) = []"
proof -
  let ?d = "demo_db ACTIVE (Some 100) 79"
  have s: "find (\<lambda>x. sub_id x = ''s1'') (subscriptions ?d) = Some (demo_subscription ACTIVE)"
          "find (\<lambda>x. sub_id x = ''s1'') (subscriptions demo_db_full) = Some (demo_subscription ACTIVE)"
    by (simp_all add: demo_defs)
  have c: "find (\<lambda>x. ac_slug x = ''invoice_ocr'') (aiComponents ?d) = Some demo_component"
          "find (\<lambda>x. ac_slug x = ''invoice_ocr'') (aiComponents demo_db_full) = Some demo_component"
    by (simp_all add: demo_defs)
  have ps: "currentPeriodStart (demo_subscription ACTIVE) = Some 1000"
    by (simp add: demo_defs)
  have pe: "currentPeriodEnd (demo_subscription ACTIVE) = Some 2000"
    by (simp add: demo_defs)
  have pk: "distinct (map ut_id (usageTracking ?d))" "distinct (map ut_id (usageTracking demo_db_full))"
    by (simp_all add: demo_defs)
  have p: "include_plan ?d (demo_subscription ACTIVE) = Inr (demo_subscription ACTIVE, demo_plan)"
          "include_plan demo_db_full (demo_subscription ACTIVE) =
             Inr (demo_subscription ACTIVE, demo_plan)"
    by (simp_all add: include_plan_def demo_defs)
  have f: "all_or_error (include_aiComponent ?d)
             (filter (\<lambda>f. pf_planId f = plan_id demo_plan \<and>
                          pf_aiComponentId f = ac_id demo_component) (planFeatures ?d)) =
           Inr ((demo_feature (Some 100), demo_component) # [])"
          "all_or_error (include_aiComponent demo_db_full)
             (filter (\<lambda>f. pf_planId f = plan_id demo_plan \<and>
                          pf_aiComponentId f = ac_id demo_component) (planFeatures demo_db_full)) =
           Inr ((demo_feature (Some 100), demo_component) # [])"
    by (simp_all add: include_aiComponent_def aIComponent_byId_def demo_defs)
  have l: "limitValue (demo_feature (Some 100)) = Some 100" "(100::int) \<noteq> 0"
    by (simp_all add: demo_defs)
  have m: "getUserEmail ?d (userId (demo_subscription ACTIVE)) = Inr ''owner@example.com''"
          "getUserEmail demo_db_full (userId (demo_subscription ACTIVE)) = Inr ''owner@example.com''"
    by (simp_all add: getUserEmail_def demo_defs)
  have a: "outbox (snd (incrementUsage ''s1'' ''invoice_ocr'' 3 ?d)) =
             [QuotaWarningEmail ''u1'' ''Invoice OCR'' 82 100 80]"
    unfolding incrementUsage_notification [OF s(1) c(1) ps pe pk(1) p(1) f(1) l m(1), of 3]
    by (simp add: percentage_of_def int4_def demo_defs)
  have b: "outbox (snd (incrementUsage ''s1'' ''invoice_ocr'' 1 demo_db_full)) = []"
    unfolding incrementUsage_notification [OF s(2) c(2) ps pe pk(2) p(2) f(2) l m(2), of 1]
    by (simp add: percentage_of_def int4_def demo_defs)
  from a b show ?thesis by simp
qed

text \<open>
  Claim C2 as stated fails: an increment from 80 to 81 of 100 crosses no boundary and
  sends an 80%-warning; an increment from 79 to 95 crosses the boundaries 80 and 90 and
  sends the 90%-warning only; the increments 79 to 80 and 80 to 81 of one period send
  the 80%-warning twice; and two runs of the warning job at a usage of 85 send it twice.
\<close>

theorem threshold_crossing_counterexample:
  "map boundary_of
     (outbox (snd (incrementUsage ''s1'' ''invoice_ocr'' 1 (demo_db ACTIVE (Some 100) 80)))) =
     [Some 80] \<and>
   crossed_boundaries 80 81 100 = [] \<and>
   map boundary_of
     (outbox (snd (incrementUsage ''s1'' ''invoice_ocr'' 16 (demo_db ACTIVE (Some 100) 79)))) =
     [Some 90] \<and>
   crossed_boundaries 79 95 100 = [80, 90] \<and>
   map boundary_of
     (outbox (snd (incrementUsage ''s1'' ''invoice_ocr'' 1
        (snd (incrementUsage ''s1'' ''invoice_ocr'' 1 (demo_db ACTIVE (Some 100) 79)))))) =
     [Some 80, Some 80] \<and>
   map boundary_of
     (outbox (sendQuotaWarnings 1600 (sendQuotaWarnings 1500 (demo_db ACTIVE (Some 100) 85)))) =
     [Some 80, Some 80]"
  by (simp add: incrementUsage_def checkQuotaWarnings_def subscription_findUnique_def
        aIComponent_findUnique_def include_plan_def include_aiComponent_def aIComponent_byId_def
        getComponentUsage_def usageTracking_increment_def usageTracking_create_def
        usageTracking_insert_def usageTracking_createMany_def int4_def
        sendQuotaWarningEmail_def sendQuotaExceededEmail_def sendEmail_def getUserEmail_def
        percentage_of_def crossed_boundaries_def sendQuotaWarnings_def warnOne_def
        warnFeature_def include_limited_features_def include_plan_user_def
        getCurrentPeriodUsage_def plan_features_def andThen_def Let_def demo_defs)

section \<open>Properties: webhook events\<close>

lemma andThen_frame:
  assumes "proj (snd r) = v" and "\<And>x d. proj (snd (k x d)) = proj d"
  shows "proj (snd (andThen r k)) = v"
proof (cases r)
  case (Pair res d0)
  with assms show ?thesis by (cases res) (simp_all add: andThen_def)
qed

lemma sendEmail_events: "payPalEvents (snd (sendEmail uid m d)) = payPalEvents d"
  by (simp add: sendEmail_def split: sum.splits)

lemma subscription_update_events: "payPalEvents (snd (subscription_update i g d)) = payPalEvents d"
  by (simp add: subscription_update_def split: option.splits)

lemma create_many_events: "payPalEvents (fold usageTracking_insert rows d) = payPalEvents d"
  by (induction rows arbitrary: d) (simp_all add: usageTracking_insert_def)

lemma initializeUsage_events:
  "payPalEvents (snd (initializeUsageForSubscription i ps pe d)) = payPalEvents d"
  by (simp add: initializeUsageForSubscription_def usageTracking_createMany_def Let_def
        create_many_events split: option.splits sum.splits)

lemma activateSubscription_events:
  "payPalEvents (snd (activateSubscription cal ok now i d)) = payPalEvents d"
proof -
  have k: "payPalEvents (snd (andThen (subscription_update j g d)
             (\<lambda>updatedSubscription d1.
                andThen (initializeUsageForSubscription j' ps pe d1)
                  (\<lambda>_ d2. andThen (sendWelcomeEmail u n d2)
                             (\<lambda>_ d3. (Inr updatedSubscription, d3)))))) = payPalEvents d"
    for j j' g ps pe u n
    by (intro andThen_frame [where proj = payPalEvents] subscription_update_events initializeUsage_events)
       (simp_all add: sendWelcomeEmail_def sendEmail_events)
  show ?thesis
    by (simp add: activateSubscription_def k Let_def split: option.splits sum.splits)
qed

lemma handlePaymentCompleted_events:
  "payPalEvents (handlePaymentCompleted cal dl d) = payPalEvents d"
proof -
  have k: "payPalEvents (snd (andThen (subscription_update j g d)
             (\<lambda>_ d1. andThen (resetQuotas j1 d1)
                (\<lambda>_ d2. andThen (initializeUsageForSubscription j2 ps pe d2)
                   (\<lambda>_ d3. sendPaymentReceipt u a n d3))))) = payPalEvents d"
    for j j1 j2 g ps pe u a n
    by (intro andThen_frame [where proj = payPalEvents] subscription_update_events initializeUsage_events)
       (simp_all add: sendPaymentReceipt_def sendEmail_events resetQuotas_def)
  show ?thesis
    by (simp add: handlePaymentCompleted_def k Let_def split: option.splits sum.splits)
qed

lemma processEvent_events: "payPalEvents (processEvent cal dl d) = payPalEvents d"
proof -
  have s: "payPalEvents (snd (andThen (subscription_update j g d)
             (\<lambda>_ d1. sendPaymentFailedEmail u d1))) = payPalEvents d" for j g u
    by (intro andThen_frame [where proj = payPalEvents] subscription_update_events)
       (simp_all add: sendPaymentFailedEmail_def sendEmail_events)
  have f: "payPalEvents (snd (sendPaymentFailedEmail u d)) = payPalEvents d" for u
    by (simp add: sendPaymentFailedEmail_def sendEmail_events)
  show ?thesis
    by (simp add: processEvent_def Let_def handleSubscriptionCreated_def
          handleSubscriptionUpdated_def handleSubscriptionActivated_def
          activateSubscription_events handlePaymentCompleted_events
          handleSubscriptionCancelled_def subscription_update_events
          handleSubscriptionSuspended_def s handlePaymentFailed_def f
          split: option.splits sum.splits)
qed

lemma create_refused:
  assumes "i \<in> pe_eventId ` set (payPalEvents d)"
  shows "payPalEvent_create t i d = Inl (Error ''Unique constraint failed on the fields: (eventId)'')"
proof -
  from assms have "find (\<lambda>r. pe_eventId r = i) (payPalEvents d) \<noteq> None"
    by (auto simp: find_None_iff)
  then show ?thesis by (simp add: payPalEvent_create_def)
qed

lemma create_records:
  "payPalEvent_create t i d = Inr d1 \<Longrightarrow>
     pe_eventId ` set (payPalEvents d1) = insert i (pe_eventId ` set (payPalEvents d))"
  by (auto simp: payPalEvent_create_def split: if_splits)

lemma updateMany_ids:
  assumes "\<And>r. pe_eventId (g r) = pe_eventId r"
  shows "pe_eventId ` set (payPalEvents (payPalEvent_updateMany i g d)) =
         pe_eventId ` set (payPalEvents d)"
proof -
  have "map pe_eventId (map (\<lambda>r. if pe_eventId r = i then g r else r) rows) = map pe_eventId rows"
    for rows
    by (induction rows) (simp_all add: assms)
  then have "map pe_eventId (payPalEvents (payPalEvent_updateMany i g d)) =
             map pe_eventId (payPalEvents d)"
    by (simp add: payPalEvent_updateMany_def)
  then have "set (map pe_eventId (payPalEvents (payPalEvent_updateMany i g d))) =
             set (map pe_eventId (payPalEvents d))"
    by (rule arg_cong)
  then show ?thesis by (simp only: set_map)
qed

lemma updateMany_tables:
  "subscriptions (payPalEvent_updateMany i g d) = subscriptions d"
  "usageTracking (payPalEvent_updateMany i g d) = usageTracking d"
  "outbox (payPalEvent_updateMany i g d) = outbox d"
  by (simp_all add: payPalEvent_updateMany_def)

lemma webhook_unverified:
  "\<not> signatureValid dl \<Longrightarrow> webhook_paypal cal dl d = (401, d)"
  by (simp add: webhook_paypal_def Let_def)

lemma webhook_redelivered:
  assumes "signatureValid dl" and "ev_id (dl_event dl) \<in> pe_eventId ` set (payPalEvents d)"
  shows "fst (webhook_paypal cal dl d) = 500"
    and "subscriptions (snd (webhook_paypal cal dl d)) = subscriptions d"
    and "usageTracking (snd (webhook_paypal cal dl d)) = usageTracking d"
    and "outbox (snd (webhook_paypal cal dl d)) = outbox d"
  using assms(1) create_refused [OF assms(2)]
  by (simp_all add: webhook_paypal_def Let_def updateMany_tables)

lemma webhook_ids:
  "pe_eventId ` set (payPalEvents (snd (webhook_paypal cal dl d))) =
     (if signatureValid dl then insert (ev_id (dl_event dl)) (pe_eventId ` set (payPalEvents d))
      else pe_eventId ` set (payPalEvents d))"
proof (cases "signatureValid dl")
  case False
  then show ?thesis by (simp add: webhook_unverified)
next
  case True
  show ?thesis
  proof (cases "payPalEvent_create (event_type (dl_event dl)) (ev_id (dl_event dl)) d")
    case (Inl e)
    then have "ev_id (dl_event dl) \<in> pe_eventId ` set (payPalEvents d)"
      by (force simp: payPalEvent_create_def find_None_iff split: if_splits)
    with True Inl show ?thesis
      by (auto simp: webhook_paypal_def Let_def updateMany_ids)
  next
    case (Inr d1)
    from create_records [OF Inr] True Inr show ?thesis
      by (simp add: webhook_paypal_def Let_def updateMany_ids processEvent_events)
  qed
qed

lemma deliver_all_keeps:
  "i \<in> pe_eventId ` set (payPalEvents d) \<Longrightarrow>
   i \<in> pe_eventId ` set (payPalEvents (deliver_all cal dls d))"
proof (induction dls arbitrary: d)
  case Nil
  then show ?case by (simp add: deliver_all_def)
next
  case (Cons dl dls)
  from Cons.prems have "i \<in> pe_eventId ` set (payPalEvents (snd (webhook_paypal cal dl d)))"
    by (simp only: webhook_ids split: if_split) simp
  from Cons.IH [OF this] show ?case by (simp add: deliver_all_def)
qed

text \<open>
  Claim C1. Deliver an event, then any sequence of other deliveries, then the same event
  again (at any later time): the second delivery leaves the subscriptions, the usage
  counters and the outbox of notifications exactly as they were before it, so it causes
  no state transition and no notification. The unique index on the event id refuses the
  second ledger row and the route answers 500 before it reaches a handler; a delivery
  whose signature PayPal does not confirm is answered 401 both times.
\<close>

theorem webhook_idempotent:
  "(let d1 = snd (webhook_paypal cal dl d);
        d2 = deliver_all cal others d1;
        again = webhook_paypal cal (dl\<lparr>receivedAt := t, paypalApiOk := ok\<rparr>) d2
    in subscriptions (snd again) = subscriptions d2 \<and>
       usageTracking (snd again) = usageTracking d2 \<and>
       outbox (snd again) = outbox d2 \<and>
       fst again = (if signatureValid dl then 500 else 401))"
proof (cases "signatureValid dl")
  case False
  then have "\<not> signatureValid (dl\<lparr>receivedAt := t, paypalApiOk := ok\<rparr>)" by simp
  from webhook_unverified [OF this] False show ?thesis by (simp add: Let_def)
next
  case True
  let ?d2 = "deliver_all cal others (snd (webhook_paypal cal dl d))"
  let ?dl = "dl\<lparr>receivedAt := t, paypalApiOk := ok\<rparr>"
  have "ev_id (dl_event dl) \<in> pe_eventId ` set (payPalEvents (snd (webhook_paypal cal dl d)))"
    using True by (simp only: webhook_ids if_True) simp
  then have "ev_id (dl_event dl) \<in> pe_eventId ` set (payPalEvents ?d2)"
    by (rule deliver_all_keeps)
  then have r: "ev_id (dl_event ?dl) \<in> pe_eventId ` set (payPalEvents ?d2)" by simp
  have v: "signatureValid ?dl" using True by simp
  from webhook_redelivered [OF v r] True show ?thesis by (simp add: Let_def)
qed

lemmas run_defs =
  webhook_paypal_def processEvent_def payPalEvent_create_def payPalEvent_updateMany_def
  handleSubscriptionCreated_def handleSubscriptionActivated_def handlePaymentCompleted_def
  handleSubscriptionCancelled_def handleSubscriptionSuspended_def handlePaymentFailed_def
  handleSubscriptionUpdated_def activateSubscription_def subscription_update_def
  subscription_findUnique_def subscription_findByPaypalId_def include_plan_def
  include_user_def include_plan_user_def include_aiComponent_def aIComponent_byId_def
  plan_features_def initializeUsageForSubscription_def usageTracking_createMany_def
  usageTracking_insert_def int4_def
  resetQuotas_def andThen_def nextPeriodEnd_def sendEmail_def getUserEmail_def
  sendWelcomeEmail_def sendPaymentReceipt_def sendPaymentFailedEmail_def
  sendMonthlyUsageReport_def deliver_all_def Let_def

lemma first_suspend:
  "snd (webhook_paypal demo_cal (demo_delivery ''BILLING.SUBSCRIPTION.SUSPENDED'')
          (demo_db ACTIVE (Some 100) 0)) =
   (demo_db SUSPENDED (Some 100) 0)
     \<lparr>payPalEvents := [\<lparr>pe_eventType = ''BILLING.SUBSCRIPTION.SUSPENDED'', pe_eventId = ''evt-1'',
                         processed = True, processedAt = Some 1500, errorMessage = None\<rparr>],
      outbox := [PaymentFailedEmail ''u1'']\<rparr>"
  by (simp add: run_defs demo_defs demo_cal_def demo_delivery_def)

theorem webhook_idempotent_witness:
  "(let d1 = snd (webhook_paypal demo_cal (demo_delivery ''BILLING.SUBSCRIPTION.SUSPENDED'')
                    (demo_db ACTIVE (Some 100) 0));
        again = webhook_paypal demo_cal
                  ((demo_delivery ''BILLING.SUBSCRIPTION.SUSPENDED'')
                     \<lparr>receivedAt := 1600, paypalApiOk := True\<rparr>) d1
    in map status (subscriptions d1) = [SUSPENDED] \<and>
       map status (subscriptions (snd again)) = [SUSPENDED] \<and>
       outbox d1 = [PaymentFailedEmail ''u1''] \<and>
       outbox (snd again) = [PaymentFailedEmail ''u1''] \<and>
       fst again = 500)"
proof -
  have v: "signatureValid (demo_delivery ''BILLING.SUBSCRIPTION.SUSPENDED'')"
    by (simp add: demo_delivery_def)
  note i = webhook_idempotent [where cal = demo_cal
            and dl = "demo_delivery ''BILLING.SUBSCRIPTION.SUSPENDED''"
            and d = "demo_db ACTIVE (Some 100) 0" and others = "[]" and t = 1600 and ok = True,
            unfolded Let_def deliver_all_def fold.simps id_apply first_suspend]
  show ?thesis
    unfolding Let_def first_suspend
    using i v by (simp add: demo_defs)
qed

text \<open>
  Claim C4 as stated fails: a \<open>BILLING.SUBSCRIPTION.ACTIVATED\<close> event for a subscription
  that is CANCELLED sets it to ACTIVE, and the route answers 200.
\<close>

theorem activation_of_cancelled_counterexample:
  "map status (subscriptions (demo_db CANCELLED (Some 100) 0)) = [CANCELLED] \<and>
   map status (subscriptions
     (snd (webhook_paypal demo_cal (demo_delivery ''BILLING.SUBSCRIPTION.ACTIVATED'')
             (demo_db CANCELLED (Some 100) 0)))) = [ACTIVE] \<and>
   fst (webhook_paypal demo_cal (demo_delivery ''BILLING.SUBSCRIPTION.ACTIVATED'')
          (demo_db CANCELLED (Some 100) 0)) = 200"
  by (simp add: run_defs demo_defs demo_cal_def demo_delivery_def)

lemma sendEmail_subscriptions: "subscriptions (snd (sendEmail uid m d)) = subscriptions d"
  by (simp add: sendEmail_def split: sum.splits)

lemma create_many_subscriptions:
  "subscriptions (fold usageTracking_insert rows d) = subscriptions d"
  by (induction rows arbitrary: d) (simp_all add: usageTracking_insert_def)

lemma initializeUsage_subscriptions:
  "subscriptions (snd (initializeUsageForSubscription i ps pe d)) = subscriptions d"
  by (simp add: initializeUsageForSubscription_def usageTracking_createMany_def Let_def
        create_many_subscriptions split: option.splits sum.splits)

lemma subscription_update_rows:
  assumes "subscription_findByPaypalId d ppid = Some s"
  shows "subscriptions (snd (subscription_update (sub_id s) g d)) =
           map (\<lambda>x. if sub_id x = sub_id s then g x else x) (subscriptions d)"
proof -
  from find_in_set [OF assms [unfolded subscription_findByPaypalId_def]]
  have "s \<in> set (subscriptions d)" by (rule conjunct1)
  then have "find (\<lambda>x. sub_id x = sub_id s) (subscriptions d) \<noteq> None"
    by (auto simp: find_None_iff)
  then show ?thesis
    by (auto simp: subscription_update_def subscription_findUnique_def)
qed

lemma find_after_update:
  assumes f: "subscription_findByPaypalId d ppid = Some s"
      and g: "\<And>x. paypalSubscriptionId (g x) = paypalSubscriptionId x"
      and r: "subscriptions d' =
                map (\<lambda>x. if sub_id x = sub_id s then g x else x) (subscriptions d)"
  shows "subscription_findByPaypalId d' ppid = Some (g s)"
proof -
  let ?h = "\<lambda>x. if sub_id x = sub_id s then g x else x"
  have "find (\<lambda>x. paypalSubscriptionId x = Some ppid) (map ?h (subscriptions d)) =
        map_option ?h (find (\<lambda>x. paypalSubscriptionId x = Some ppid) (subscriptions d))"
    by (rule find_map_same) (simp add: g)
  with f r show ?thesis by (simp add: subscription_findByPaypalId_def)
qed

lemma cancelled_applied:
  assumes "subscription_findByPaypalId d (res_id (ev_resource (dl_event dl))) = Some s"
  shows "subscription_findByPaypalId (handleSubscriptionCancelled dl d)
           (res_id (ev_resource (dl_event dl))) =
         Some (s\<lparr>status := CANCELLED, cancelledAt := Some (receivedAt dl)\<rparr>)"
proof (rule find_after_update [OF assms])
  show "subscriptions (handleSubscriptionCancelled dl d) =
          map (\<lambda>x. if sub_id x = sub_id s
                    then x\<lparr>status := CANCELLED, cancelledAt := Some (receivedAt dl)\<rparr> else x)
              (subscriptions d)"
    by (simp add: handleSubscriptionCancelled_def assms subscription_update_rows [OF assms])
qed simp

lemma suspended_applied:
  assumes "subscription_findByPaypalId d (res_id (ev_resource (dl_event dl))) = Some s"
      and "include_user d s = Inr s"
  shows "subscription_findByPaypalId (handleSubscriptionSuspended dl d)
           (res_id (ev_resource (dl_event dl))) = Some (s\<lparr>status := SUSPENDED\<rparr>)"
proof (rule find_after_update [OF assms(1)])
  have "subscriptions (snd (andThen (subscription_update (sub_id s) (\<lambda>x. x\<lparr>status := SUSPENDED\<rparr>) d)
                              (\<lambda>_ d1. sendPaymentFailedEmail (userId s) d1))) =
        subscriptions (snd (subscription_update (sub_id s) (\<lambda>x. x\<lparr>status := SUSPENDED\<rparr>) d))"
    by (rule andThen_frame [where proj = subscriptions, OF refl])
       (simp add: sendPaymentFailedEmail_def sendEmail_subscriptions)
  then show "subscriptions (handleSubscriptionSuspended dl d) =
          map (\<lambda>x. if sub_id x = sub_id s then x\<lparr>status := SUSPENDED\<rparr> else x) (subscriptions d)"
    by (simp add: handleSubscriptionSuspended_def assms subscription_update_rows [OF assms(1)])
qed simp

lemma activated_applied:
  assumes "subscription_findByPaypalId d (res_id (ev_resource (dl_event dl))) = Some s"
      and "include_plan d s = Inr (s, p)"
      and "paypalApiOk dl"
  shows "subscription_findByPaypalId (handleSubscriptionActivated cal dl d)
           (res_id (ev_resource (dl_event dl))) =
         Some (s\<lparr>status := ACTIVE, currentPeriodStart := Some (receivedAt dl),
                currentPeriodEnd := Some (nextPeriodEnd cal p (receivedAt dl))\<rparr>)"
proof (rule find_after_update [OF assms(1)])
  let ?g = "\<lambda>x. x\<lparr>status := ACTIVE, currentPeriodStart := Some (receivedAt dl),
                   currentPeriodEnd := Some (nextPeriodEnd cal p (receivedAt dl))\<rparr>"
  have "subscriptions (snd (andThen (subscription_update (sub_id s) ?g d)
          (\<lambda>updatedSubscription d1.
             andThen (initializeUsageForSubscription (sub_id s) (receivedAt dl)
                        (nextPeriodEnd cal p (receivedAt dl)) d1)
               (\<lambda>_ d2. andThen (sendWelcomeEmail (userId s) (plan_name p) d2)
                          (\<lambda>_ d3. (Inr updatedSubscription, d3)))))) =
        subscriptions (snd (subscription_update (sub_id s) ?g d))"
    by (intro andThen_frame [where proj = subscriptions, OF refl]
              andThen_frame [where proj = subscriptions] initializeUsage_subscriptions)
       (simp_all add: sendWelcomeEmail_def sendEmail_subscriptions)
  then show "subscriptions (handleSubscriptionActivated cal dl d) =
          map (\<lambda>x. if sub_id x = sub_id s then ?g x else x) (subscriptions d)"
    by (simp add: handleSubscriptionActivated_def activateSubscription_def assms Let_def
          subscription_update_rows [OF assms(1)])
qed simp

lemma webhook_first_delivery:
  assumes "signatureValid dl"
      and "ev_id (dl_event dl) \<notin> pe_eventId ` set (payPalEvents d)"
  shows "fst (webhook_paypal cal dl d) = 200"
    and "subscriptions (snd (webhook_paypal cal dl d)) =
           subscriptions
             (processEvent cal dl
                (d\<lparr>payPalEvents := payPalEvents d @
                     [\<lparr>pe_eventType = event_type (dl_event dl), pe_eventId = ev_id (dl_event dl),
                       processed = False, processedAt = None, errorMessage = None\<rparr>]\<rparr>))"
proof -
  from assms(2) have "find (\<lambda>r. pe_eventId r = ev_id (dl_event dl)) (payPalEvents d) = None"
    by (force simp: find_None_iff)
  with assms(1) show "fst (webhook_paypal cal dl d) = 200"
    and "subscriptions (snd (webhook_paypal cal dl d)) =
           subscriptions
             (processEvent cal dl
                (d\<lparr>payPalEvents := payPalEvents d @
                     [\<lparr>pe_eventType = event_type (dl_event dl), pe_eventId = ev_id (dl_event dl),
                       processed = False, processedAt = None, errorMessage = None\<rparr>]\<rparr>))"
    by (simp_all add: webhook_paypal_def payPalEvent_create_def Let_def updateMany_tables)
qed

lemma ledger_frame:
  "subscription_findByPaypalId (d\<lparr>payPalEvents := ev\<rparr>) i = subscription_findByPaypalId d i"
  "include_plan (d\<lparr>payPalEvents := ev\<rparr>) s = include_plan d s"
  "include_user (d\<lparr>payPalEvents := ev\<rparr>) s = include_user d s"
  "subscriptions (d\<lparr>payPalEvents := ev\<rparr>) = subscriptions d"
  by (simp_all add: subscription_findByPaypalId_def include_plan_def include_user_def)

lemma activation_without_paypal:
  "\<not> paypalApiOk dl \<Longrightarrow> handleSubscriptionActivated cal dl d = d"
  by (simp add: handleSubscriptionActivated_def activateSubscription_def
        split: option.splits sum.splits)

lemma unknown_subscription_ignored:
  assumes "subscription_findByPaypalId d (res_id (ev_resource (dl_event dl))) = None"
  shows "handleSubscriptionCancelled dl d = d"
    and "handleSubscriptionSuspended dl d = d"
    and "handleSubscriptionActivated cal dl d = d"
  using assms
  by (simp_all add: handleSubscriptionCancelled_def handleSubscriptionSuspended_def
        handleSubscriptionActivated_def activateSubscription_def)

lemma payment_failed_subscriptions:
  "subscriptions (handlePaymentFailed dl d) = subscriptions d"
  by (simp add: handlePaymentFailed_def sendPaymentFailedEmail_def sendEmail_subscriptions
        split: option.splits sum.splits)

text \<open>
  Claim C4, as amended. For a verified event that the ledger has not seen, the route
  answers 200 and applies the event whatever the current status of the subscription
  \<open>s\<close> that \<open>resource.id\<close> refers to. Type \<open>BILLING.SUBSCRIPTION.CANCELLED\<close> sets it to
  CANCELLED. Type \<open>BILLING.SUBSCRIPTION.SUSPENDED\<close> sets it to SUSPENDED when its owner
  resolves. Type \<open>BILLING.SUBSCRIPTION.ACTIVATED\<close> sets it to ACTIVE with a period that
  starts at the arrival of the event when its plan resolves and PayPal's API answers,
  and changes no subscription when PayPal's API does not answer. An event of one of these
  three types that refers to no known subscription changes no subscription, and neither
  does an event of type \<open>BILLING.SUBSCRIPTION.CREATED\<close>, \<open>BILLING.SUBSCRIPTION.UPDATED\<close>
  or \<open>BILLING.SUBSCRIPTION.PAYMENT.FAILED\<close>.
\<close>

theorem external_events_applied:
  assumes v: "signatureValid dl"
      and n: "ev_id (dl_event dl) \<notin> pe_eventId ` set (payPalEvents d)"
  shows "fst (webhook_paypal cal dl d) = 200 \<and>
   (find (\<lambda>x. paypalSubscriptionId x = Some (res_id (ev_resource (dl_event dl))))
      (subscriptions d) = Some s \<longrightarrow>
      (event_type (dl_event dl) = ''BILLING.SUBSCRIPTION.CANCELLED'' \<longrightarrow>
         find (\<lambda>x. paypalSubscriptionId x = Some (res_id (ev_resource (dl_event dl))))
           (subscriptions (snd (webhook_paypal cal dl d))) =
         Some (s\<lparr>status := CANCELLED, cancelledAt := Some (receivedAt dl)\<rparr>)) \<and>
      (event_type (dl_event dl) = ''BILLING.SUBSCRIPTION.SUSPENDED'' \<and>
       find (\<lambda>u. user_id u = userId s) (users d) = Some owner \<longrightarrow>
         find (\<lambda>x. paypalSubscriptionId x = Some (res_id (ev_resource (dl_event dl))))
           (subscriptions (snd (webhook_paypal cal dl d))) =
         Some (s\<lparr>status := SUSPENDED\<rparr>)) \<and>
      (event_type (dl_event dl) = ''BILLING.SUBSCRIPTION.ACTIVATED'' \<and>
       find (\<lambda>x. plan_id x = planId s) (subscriptionPlans d) = Some p \<and> paypalApiOk dl \<longrightarrow>
         find (\<lambda>x. paypalSubscriptionId x = Some (res_id (ev_resource (dl_event dl))))
           (subscriptions (snd (webhook_paypal cal dl d))) =
         Some (s\<lparr>status := ACTIVE, currentPeriodStart := Some (receivedAt dl),
                currentPeriodEnd := Some (nextPeriodEnd cal p (receivedAt dl))\<rparr>))) \<and>
   (event_type (dl_event dl) = ''BILLING.SUBSCRIPTION.ACTIVATED'' \<and> \<not> paypalApiOk dl \<longrightarrow>
      subscriptions (snd (webhook_paypal cal dl d)) = subscriptions d) \<and>
   (find (\<lambda>x. paypalSubscriptionId x = Some (res_id (ev_resource (dl_event dl))))
      (subscriptions d) = None \<and>
    (event_type (dl_event dl) = ''BILLING.SUBSCRIPTION.CANCELLED'' \<or>
     event_type (dl_event dl) = ''BILLING.SUBSCRIPTION.SUSPENDED'' \<or>
     event_type (dl_event dl) = ''BILLING.SUBSCRIPTION.ACTIVATED'') \<longrightarrow>
      subscriptions (snd (webhook_paypal cal dl d)) = subscriptions d) \<and>
   (event_type (dl_event dl) = ''BILLING.SUBSCRIPTION.CREATED'' \<or>
    event_type (dl_event dl) = ''BILLING.SUBSCRIPTION.UPDATED'' \<or>
    event_type (dl_event dl) = ''BILLING.SUBSCRIPTION.PAYMENT.FAILED'' \<longrightarrow>
      subscriptions (snd (webhook_paypal cal dl d)) = subscriptions d)"
proof -
  let ?i = "res_id (ev_resource (dl_event dl))"
  let ?d1 = "d\<lparr>payPalEvents := payPalEvents d @
                [\<lparr>pe_eventType = event_type (dl_event dl), pe_eventId = ev_id (dl_event dl),
                  processed = False, processedAt = None, errorMessage = None\<rparr>]\<rparr>"
  note w = webhook_first_delivery [OF v n, of cal]
  have by_id: "find (\<lambda>x. paypalSubscriptionId x = Some ?i) (subscriptions X) =
                 subscription_findByPaypalId X ?i" for X
    by (simp add: subscription_findByPaypalId_def)
  have cancelled: "find (\<lambda>x. paypalSubscriptionId x = Some ?i)
                     (subscriptions (snd (webhook_paypal cal dl d))) =
                   Some (s\<lparr>status := CANCELLED, cancelledAt := Some (receivedAt dl)\<rparr>)"
    if f: "find (\<lambda>x. paypalSubscriptionId x = Some ?i) (subscriptions d) = Some s"
    and t: "event_type (dl_event dl) = ''BILLING.SUBSCRIPTION.CANCELLED''"
  proof -
    from f have "subscription_findByPaypalId ?d1 ?i = Some s"
      by (simp only: ledger_frame by_id [symmetric])
    from cancelled_applied [OF this] t show ?thesis
      by (simp add: w(2) by_id processEvent_def)
  qed
  have suspended: "find (\<lambda>x. paypalSubscriptionId x = Some ?i)
                     (subscriptions (snd (webhook_paypal cal dl d))) =
                   Some (s\<lparr>status := SUSPENDED\<rparr>)"
    if f: "find (\<lambda>x. paypalSubscriptionId x = Some ?i) (subscriptions d) = Some s"
    and t: "event_type (dl_event dl) = ''BILLING.SUBSCRIPTION.SUSPENDED''"
    and o: "find (\<lambda>u. user_id u = userId s) (users d) = Some owner"
  proof -
    from f have 1: "subscription_findByPaypalId ?d1 ?i = Some s"
      by (simp only: ledger_frame by_id [symmetric])
    from o have 2: "include_user ?d1 s = Inr s"
      by (simp add: include_user_def)
    from suspended_applied [OF 1 2] t show ?thesis
      by (simp add: w(2) by_id processEvent_def)
  qed
  have activated: "find (\<lambda>x. paypalSubscriptionId x = Some ?i)
                     (subscriptions (snd (webhook_paypal cal dl d))) =
                   Some (s\<lparr>status := ACTIVE, currentPeriodStart := Some (receivedAt dl),
                          currentPeriodEnd := Some (nextPeriodEnd cal p (receivedAt dl))\<rparr>)"
    if f: "find (\<lambda>x. paypalSubscriptionId x = Some ?i) (subscriptions d) = Some s"
    and t: "event_type (dl_event dl) = ''BILLING.SUBSCRIPTION.ACTIVATED''"
    and pl: "find (\<lambda>x. plan_id x = planId s) (subscriptionPlans d) = Some p"
    and ok: "paypalApiOk dl"
  proof -
    from f have 1: "subscription_findByPaypalId ?d1 ?i = Some s"
      by (simp only: ledger_frame by_id [symmetric])
    from pl have 2: "include_plan ?d1 s = Inr (s, p)"
      by (simp add: include_plan_def)
    from activated_applied [OF 1 2 ok, of cal] t show ?thesis
      by (simp add: w(2) by_id processEvent_def)
  qed
  have no_paypal: "subscriptions (snd (webhook_paypal cal dl d)) = subscriptions d"
    if t: "event_type (dl_event dl) = ''BILLING.SUBSCRIPTION.ACTIVATED''" and ok: "\<not> paypalApiOk dl"
    using t by (simp add: w(2) processEvent_def activation_without_paypal [OF ok])
  have unknown: "subscriptions (snd (webhook_paypal cal dl d)) = subscriptions d"
    if f: "find (\<lambda>x. paypalSubscriptionId x = Some ?i) (subscriptions d) = None"
    and t: "event_type (dl_event dl) = ''BILLING.SUBSCRIPTION.CANCELLED'' \<or>
            event_type (dl_event dl) = ''BILLING.SUBSCRIPTION.SUSPENDED'' \<or>
            event_type (dl_event dl) = ''BILLING.SUBSCRIPTION.ACTIVATED''"
  proof -
    from f have "subscription_findByPaypalId ?d1 ?i = None"
      by (simp only: ledger_frame by_id [symmetric])
    from unknown_subscription_ignored [OF this] t show ?thesis
      by (auto simp: w(2) processEvent_def)
  qed
  have other: "subscriptions (snd (webhook_paypal cal dl d)) = subscriptions d"
    if t: "event_type (dl_event dl) = ''BILLING.SUBSCRIPTION.CREATED'' \<or>
           event_type (dl_event dl) = ''BILLING.SUBSCRIPTION.UPDATED'' \<or>
           event_type (dl_event dl) = ''BILLING.SUBSCRIPTION.PAYMENT.FAILED''"
    using t
    by (auto simp: w(2) processEvent_def handleSubscriptionCreated_def
          handleSubscriptionUpdated_def payment_failed_subscriptions)
  show ?thesis
    using w(1) cancelled suspended activated no_paypal unknown other by blast
qed

theorem external_events_applied_witness:
  "find (\<lambda>x. paypalSubscriptionId x = Some ''I-1'')
     (subscriptions (snd (webhook_paypal demo_cal (demo_delivery ''BILLING.SUBSCRIPTION.ACTIVATED'')
        (demo_db CANCELLED (Some 100) 0)))) =
     Some ((demo_subscription ACTIVE)
             \<lparr>currentPeriodStart := Some 1500, currentPeriodEnd := Some 2592001500\<rparr>) \<and>
   find (\<lambda>x. paypalSubscriptionId x = Some ''I-1'')
     (subscriptions (snd (webhook_paypal demo_cal (demo_delivery ''BILLING.SUBSCRIPTION.CANCELLED'')
        (demo_db EXPIRED (Some 100) 0)))) =
     Some ((demo_subscription CANCELLED)\<lparr>cancelledAt := Some 1500\<rparr>) \<and>
   find (\<lambda>x. paypalSubscriptionId x = Some ''I-1'')
     (subscriptions (snd (webhook_paypal demo_cal (demo_delivery ''BILLING.SUBSCRIPTION.SUSPENDED'')
        (demo_db CANCELLED (Some 100) 0)))) =
     Some (demo_subscription SUSPENDED) \<and>
   subscriptions (snd (webhook_paypal demo_cal
        ((demo_delivery ''BILLING.SUBSCRIPTION.ACTIVATED'')\<lparr>paypalApiOk := False\<rparr>)
        (demo_db PENDING (Some 100) 0))) = subscriptions (demo_db PENDING (Some 100) 0) \<and>
   fst (webhook_paypal demo_cal (demo_delivery ''BILLING.SUBSCRIPTION.ACTIVATED'')
          (demo_db CANCELLED (Some 100) 0)) = 200"
proof -
  let ?a = "demo_delivery ''BILLING.SUBSCRIPTION.ACTIVATED''"
  let ?c = "demo_delivery ''BILLING.SUBSCRIPTION.CANCELLED''"
  let ?s = "demo_delivery ''BILLING.SUBSCRIPTION.SUSPENDED''"
  let ?f = "(demo_delivery ''BILLING.SUBSCRIPTION.ACTIVATED'')\<lparr>paypalApiOk := False\<rparr>"
  have v: "signatureValid (demo_delivery t)" "signatureValid ?f" for t
    by (simp_all add: demo_delivery_def)
  have n: "ev_id (dl_event (demo_delivery t)) \<notin> pe_eventId ` set (payPalEvents (demo_db st l u))"
          "ev_id (dl_event ?f) \<notin> pe_eventId ` set (payPalEvents (demo_db st l u))" for t st l u
    by (simp_all add: demo_delivery_def demo_db_def)
  have r: "res_id (ev_resource (dl_event (demo_delivery t))) = ''I-1''"
          "res_id (ev_resource (dl_event ?f)) = ''I-1''"
          "receivedAt (demo_delivery t) = 1500" "paypalApiOk (demo_delivery t)"
          "\<not> paypalApiOk ?f"
          "event_type (dl_event (demo_delivery t)) = t"
          "event_type (dl_event ?f) = ''BILLING.SUBSCRIPTION.ACTIVATED''" for t
    by (simp_all add: demo_delivery_def)
  have f: "find (\<lambda>x. paypalSubscriptionId x = Some ''I-1'') (subscriptions (demo_db st l u)) =
             Some (demo_subscription st)" for st l u
    by (simp add: demo_defs)
  have p: "find (\<lambda>x. plan_id x = planId (demo_subscription st)) (subscriptionPlans (demo_db st l u)) =
             Some demo_plan" for st l u
    by (simp add: demo_defs)
  have o: "find (\<lambda>x. user_id x = userId (demo_subscription st)) (users (demo_db st l u)) =
             Some demo_user" for st l u
    by (simp add: demo_defs)
  have e: "nextPeriodEnd demo_cal demo_plan 1500 = 2592001500"
    by (simp add: nextPeriodEnd_def demo_cal_def demo_plan_def)
  note a = external_events_applied [OF v(1) [of "''BILLING.SUBSCRIPTION.ACTIVATED''"]
         n(1) [of "''BILLING.SUBSCRIPTION.ACTIVATED''" CANCELLED "Some 100" 0],
         where cal = demo_cal and s = "demo_subscription CANCELLED" and p = demo_plan
         and owner = demo_user]
  note c = external_events_applied [OF v(1) [of "''BILLING.SUBSCRIPTION.CANCELLED''"]
         n(1) [of "''BILLING.SUBSCRIPTION.CANCELLED''" EXPIRED "Some 100" 0],
         where cal = demo_cal and s = "demo_subscription EXPIRED" and p = demo_plan
         and owner = demo_user]
  note su = external_events_applied [OF v(1) [of "''BILLING.SUBSCRIPTION.SUSPENDED''"]
         n(1) [of "''BILLING.SUBSCRIPTION.SUSPENDED''" CANCELLED "Some 100" 0],
         where cal = demo_cal and s = "demo_subscription CANCELLED" and p = demo_plan
         and owner = demo_user]
  note fl = external_events_applied [OF v(2) n(2) [of PENDING "Some 100" 0],
         where cal = demo_cal and s = "demo_subscription PENDING" and p = demo_plan
         and owner = demo_user]
  from a c su fl r f p o e
  show ?thesis by (simp add: demo_subscription_def)
qed

section \<open>Properties: period rollover\<close>

text \<open>
  The reset job writes the period of a subscription and nothing else of it: whatever the
  database, every subscription keeps its status and its \<open>cancelAtPeriodEnd\<close> flag.
\<close>

lemma subscription_update_keeps:
  assumes "\<And>x. f (g x) = f x"
  shows "map f (subscriptions (snd (subscription_update i g d))) = map f (subscriptions d)"
  by (simp add: subscription_update_def assms split: option.splits)

lemma resetOne_keeps:
  "map (\<lambda>s. (status s, cancelAtPeriodEnd s)) (subscriptions (resetOne cal now sp d)) =
   map (\<lambda>s. (status s, cancelAtPeriodEnd s)) (subscriptions d)"
proof (cases "getCurrentPeriodUsage now (sub_id (fst sp)) d")
  case (Inl e)
  then show ?thesis by (simp add: resetOne_def)
next
  case (Inr lastPeriodUsage)
  let ?f = "\<lambda>d. map (\<lambda>s. (status s, cancelAtPeriodEnd s)) (subscriptions d)"
  have "?f (snd (andThen
                   (subscription_update (sub_id (fst sp))
                      (\<lambda>x. x\<lparr>currentPeriodStart := Some now,
                             currentPeriodEnd := Some (nextPeriodEnd cal (snd sp) now)\<rparr>) d)
                   (\<lambda>_ d1.
                      andThen (resetQuotas (sub_id (fst sp)) d1)
                        (\<lambda>_ d2.
                           andThen
                             (initializeUsageForSubscription (sub_id (fst sp))
                                now (nextPeriodEnd cal (snd sp) now) d2)
                             (\<lambda>_ d3.
                                sendMonthlyUsageReport (userId (fst sp))
                                  (map (\<lambda>entry. (fst entry, us_used (snd entry),
                                                    us_limit (snd entry)))
                                       lastPeriodUsage) d3))))) = ?f d"
    by (intro andThen_frame [where proj = ?f] subscription_update_keeps)
       (simp_all add: resetQuotas_def initializeUsage_subscriptions
          sendMonthlyUsageReport_def sendEmail_subscriptions)
  with Inr show ?thesis by (simp add: resetOne_def Let_def)
qed

lemma resetMonthlyQuotas_keeps_status:
  "map (\<lambda>s. (status s, cancelAtPeriodEnd s)) (subscriptions (resetMonthlyQuotas cal today d)) =
   map (\<lambda>s. (status s, cancelAtPeriodEnd s)) (subscriptions d)"
proof -
  have "map (\<lambda>s. (status s, cancelAtPeriodEnd s)) (subscriptions (fold (resetOne cal today) sps d)) =
        map (\<lambda>s. (status s, cancelAtPeriodEnd s)) (subscriptions d)" for sps
    by (induction sps arbitrary: d) (simp_all add: resetOne_keeps)
  then show ?thesis
    by (simp add: resetMonthlyQuotas_def split: sum.splits)
qed

text \<open>
  Claim C3, on the code: an ACTIVE subscription with \<open>cancelAtPeriodEnd = true\<close> whose
  period ends on the day of the run comes out of \<open>resetMonthlyQuotas\<close> still ACTIVE,
  with the flag still set and a fresh period that starts at the time of the run.
\<close>

theorem rollover_keeps_cancelling_subscription_active:
  "map (\<lambda>s. (status s, cancelAtPeriodEnd s, currentPeriodStart s, currentPeriodEnd s))
       (subscriptions demo_rollover_db) =
     [(ACTIVE, True, Some 0, Some 2592000000)] \<and>
   map (\<lambda>s. (status s, cancelAtPeriodEnd s, currentPeriodStart s, currentPeriodEnd s))
       (subscriptions (resetMonthlyQuotas demo_cal 2595600000 demo_rollover_db)) =
     [(ACTIVE, True, Some 2595600000, Some 5187600000)]"
  by (simp add: resetMonthlyQuotas_def resetOne_def getCurrentPeriodUsage_def run_defs
        percentage_of_def demo_rollover_db_def demo_defs demo_cal_def)

end
